theory Spec2Isabelle
  imports Complex_Main "HOL-Library.Word"
begin

section \<open>Values of the host language\<close>

text \<open>
  The module \<open>lib/hdprivatekey.js\<close> is JavaScript: one constructor inspects the shape of
  its argument at run time. The values it can meet are modelled by \<open>jsval\<close>. Numbers are
  restricted to the integers and NaN (every number the module itself produces is one:
  \<open>parseInt\<close>, \<open>depth + 1\<close>, \<open>index + 0x80000000\<close>); they are exact, which agrees with
  JavaScript's doubles up to \<open>2^53\<close>.
\<close>

type_synonym byte = "8 word"

datatype jsnum = JNaN | JInt int

text \<open>An entry of the network registry (\<open>lib/networks\<close>): its name and the version
  number that prefixes a serialized extended private key.\<close>

record Network =
  net_name :: string
  net_xprivkey :: int

text \<open>The argument of \<open>isValidSerialized\<close> and of the constructor's first branch is
  text or raw bytes; the key keeps it as its \<open>xprivkey\<close>.\<close>

datatype serial = Text string | Bytes "byte list"

text \<open>\<open>this._buffers\<close>: the byte fields of a built key.\<close>

record keybuffers =
  b_version :: "byte list"
  b_depth :: "byte list"
  b_parentFingerPrint :: "byte list"
  b_childIndex :: "byte list"
  b_chainCode :: "byte list"
  b_privateKey :: "byte list"
  b_checksum :: "byte list"
  b_xprivkey :: "serial option"

text \<open>
  An instance of \<open>HDPrivateKey\<close>. \<open>privateKey\<close> is the scalar held by the
  \<open>PrivateKey\<close> object, \<open>publicKey\<close> the serialization \<open>publicKey.toBuffer()\<close> of the
  public key computed from it, \<open>xpubkey\<close> the text of the companion \<open>HDPublicKey\<close>.
\<close>

record hdkey =
  buffers :: keybuffers
  xprivkey :: serial
  network :: "Network option"
  depth :: int
  privateKey :: nat
  publicKey :: "byte list"
  fingerPrint :: "byte list"
  xpubkey :: string

datatype jsval =
    VUndefined
  | VNull
  | VBool bool
  | VNum jsnum
  | VStr string
  | VBuf "byte list"
  | VNet Network
  | VKey hdkey
  | VObj "(string \<times> jsval) list"

text \<open>Everything the module throws. The first twelve are the classes of
  \<open>HDPrivateKey.Error\<close>; \<open>AssertionError\<close> is a failed \<open>assert\<close>, \<open>TypeError\<close> a
  property read on \<open>undefined\<close> or \<open>null\<close>, \<open>SyntaxError\<close> a failed \<open>JSON.parse\<close>,
  \<open>ThrownNull\<close> the statement \<open>throw null\<close>, and the last four are failures of
  collaborators that are called without a guard.\<close>

datatype error =
    InvalidArgument
  | InvalidB58Char
  | InvalidB58Checksum
  | InvalidDerivationArgument
  | InvalidEntropyArgument
  | InvalidLength
  | InvalidNetwork
  | InvalidNetworkArgument
  | InvalidPath
  | NotEnoughEntropy
  | TooMuchEntropy
  | UnrecognizedArgument
  | AssertionError
  | TypeError
  | SyntaxError
  | ThrownNull
  | Base58CheckError
  | HexError
  | PrivateKeyError
  | HDPublicKeyError

section \<open>The collaborators\<close>

text \<open>
  The module requires \<open>./crypto/bn\<close>, \<open>./encoding/base58\<close>, \<open>./encoding/base58check\<close>,
  \<open>./crypto/hash\<close>, \<open>./networks\<close>, \<open>./hdkeycache\<close>, \<open>./crypto/point\<close>,
  \<open>./privatekey\<close>, \<open>./crypto/random\<close>, \<open>./util/buffer\<close> and \<open>./hdpublickey\<close>, none of
  which is part of the sources at hand. Their functions are parameters of the model,
  collected in one record; every theorem says which laws of them it relies on.
  \<open>'c\<close> is the state of the derivation cache.

  \<^item> \<open>Base58Check_decode\<close> is \<open>None\<close> where the decoder throws.
  \<^item> \<open>Hash_sha512hmac data key\<close> takes its arguments in the order of the source.
  \<open>PrivateKey_new n\<close> says whether \<open>new PrivateKey(n)\<close> accepts the scalar \<open>n\<close>.
  \<^item> \<open>HDPublicKey_new\<close> receives what the companion object reads from the key under
  construction: its network, its depth, parent fingerprint, child index and chain code
  buffers, and its public key; \<open>None\<close> where it throws.
  \<^item> \<open>JSON_parse\<close> is \<open>None\<close> where \<open>JSON.parse\<close> throws.
  \<^item> \<open>bufferUtil_hexToBuffer\<close> is \<open>None\<close> where it throws.
\<close>

record 'c collaborators =
  Base58_validCharacters :: "jsval \<Rightarrow> bool"
  Base58Check_decode :: "jsval \<Rightarrow> byte list option"
  Base58Check_encode :: "byte list \<Rightarrow> string"
  Base58Check_checksum :: "byte list \<Rightarrow> byte list"
  Hash_sha512hmac :: "byte list \<Rightarrow> byte list \<Rightarrow> byte list"
  Hash_sha256ripemd160 :: "byte list \<Rightarrow> byte list"
  Network_get :: "jsval \<Rightarrow> Network option"
  Network_livenet :: Network
  Point_getN :: nat
  PrivateKey_new :: "nat \<Rightarrow> bool"
  PrivateKey_toBuffer :: "nat \<Rightarrow> byte list"
  PublicKey_toBuffer :: "nat \<Rightarrow> byte list"
  HDPublicKey_new ::
    "Network option \<Rightarrow> byte list \<Rightarrow> byte list \<Rightarrow> byte list \<Rightarrow> byte list \<Rightarrow> byte list
      \<Rightarrow> string option"
  Random_getRandomBuffer :: "nat \<Rightarrow> byte list"
  JSON_parse :: "jsval \<Rightarrow> jsval option"
  Buffer_toString :: "byte list \<Rightarrow> string"
  bufferUtil_integerAsBuffer :: "jsval \<Rightarrow> byte list"
  bufferUtil_integerAsSingleByteBuffer :: "jsval \<Rightarrow> byte list"
  bufferUtil_integerFromBuffer :: "byte list \<Rightarrow> int"
  bufferUtil_integerFromSingleByteBuffer :: "byte list \<Rightarrow> int"
  bufferUtil_hexToBuffer :: "string \<Rightarrow> byte list option"
  HDKeyCache_get :: "'c \<Rightarrow> serial \<Rightarrow> jsnum \<Rightarrow> jsval \<Rightarrow> hdkey option"
  HDKeyCache_set :: "'c \<Rightarrow> serial \<Rightarrow> jsnum \<Rightarrow> jsval \<Rightarrow> hdkey \<Rightarrow> 'c"

section \<open>Primitives of the language and of lodash\<close>

text \<open>\<open>if (v)\<close>: the falsy values are \<open>undefined\<close>, \<open>null\<close>, \<open>false\<close>, \<open>0\<close>, NaN and
  the empty string; every object, also an empty buffer, is truthy.\<close>

fun truthy :: "jsval \<Rightarrow> bool" where
  "truthy VUndefined = False"
| "truthy VNull = False"
| "truthy (VBool b) = b"
| "truthy (VNum JNaN) = False"
| "truthy (VNum (JInt i)) = (i \<noteq> 0)"
| "truthy (VStr s) = (s \<noteq> [])"
| "truthy (VBuf b) = True"
| "truthy (VNet n) = True"
| "truthy (VKey k) = True"
| "truthy (VObj ps) = True"

fun isString :: "jsval \<Rightarrow> bool" where
  "isString (VStr s) = True"
| "isString v = False"

fun isNumber :: "jsval \<Rightarrow> bool" where
  "isNumber (VNum n) = True"
| "isNumber v = False"

fun isBuffer :: "jsval \<Rightarrow> bool" where
  "isBuffer (VBuf b) = True"
| "isBuffer v = False"

fun isObject :: "jsval \<Rightarrow> bool" where
  "isObject (VBuf b) = True"
| "isObject (VNet n) = True"
| "isObject (VKey k) = True"
| "isObject (VObj ps) = True"
| "isObject v = False"

fun isUndefined :: "jsval \<Rightarrow> bool" where
  "isUndefined VUndefined = True"
| "isUndefined v = False"

text \<open>\<open>arg.field\<close> on a truthy value: a missing property reads as \<open>undefined\<close>.\<close>

fun getProp :: "jsval \<Rightarrow> string \<Rightarrow> jsval" where
  "getProp (VObj ps) f = (case map_of ps f of Some v \<Rightarrow> v | None \<Rightarrow> VUndefined)"
| "getProp (VNet n) f =
     (if f = ''name'' then VStr (net_name n)
      else if f = ''xprivkey'' then VNum (JInt (net_xprivkey n))
      else VUndefined)"
| "getProp (VStr s) f = (if f = ''length'' then VNum (JInt (int (length s))) else VUndefined)"
| "getProp (VBuf b) f = (if f = ''length'' then VNum (JInt (int (length b))) else VUndefined)"
| "getProp v f = VUndefined"

text \<open>\<open>buf.slice(start, end)\<close> for \<open>0 \<le> start \<le> end\<close>: both ends are clamped to the
  length of the buffer.\<close>

definition slice :: "nat \<Rightarrow> nat \<Rightarrow> 'a list \<Rightarrow> 'a list" where
  "slice start fin xs = take (fin - start) (drop start xs)"

text \<open>\<open>new buffer.Buffer(str)\<close> on ASCII text.\<close>

definition Buffer_of_string :: "string \<Rightarrow> byte list" where
  "Buffer_of_string s = map (\<lambda>c. of_nat (of_char c)) s"

text \<open>\<open>BN().fromBuffer(buf)\<close> reads a big-endian unsigned integer;
  \<open>bn.toBuffer({size: n})\<close> writes one on \<open>n\<close> bytes, zero-padded on the left.\<close>

definition BN_fromBuffer :: "byte list \<Rightarrow> nat" where
  "BN_fromBuffer bs = foldl (\<lambda>a b. a * 256 + unat b) 0 bs"

fun BN_toBuffer :: "nat \<Rightarrow> nat \<Rightarrow> byte list" where
  "BN_toBuffer 0 n = []"
| "BN_toBuffer (Suc k) n = BN_toBuffer k (n div 256) @ [of_nat (n mod 256)]"

text \<open>\<open>jsUtil.isHexa\<close> (also exported as \<open>isHexaString\<close>): a string matching
  \<open>/^[0-9a-fA-F]+$/\<close>.\<close>

definition isHexDigit :: "char \<Rightarrow> bool" where
  "isHexDigit c = (c \<in> set ''0123456789abcdefABCDEF'')"

fun isHexa :: "jsval \<Rightarrow> bool" where
  "isHexa (VStr s) = (s \<noteq> [] \<and> list_all isHexDigit s)"
| "isHexa v = False"

text \<open>\<open>jsUtil.isValidJson\<close> returns the parsed value, or \<open>false\<close> when \<open>JSON.parse\<close>
  throws; its callers test the result for truthiness.\<close>

definition isValidJson :: "'c collaborators \<Rightarrow> jsval \<Rightarrow> jsval" where
  "isValidJson P arg = (case JSON_parse P arg of None \<Rightarrow> VBool False | Some v \<Rightarrow> v)"

text \<open>The contents of a value that has been checked to be a buffer.\<close>

fun bytes_of :: "jsval \<Rightarrow> byte list" where
  "bytes_of (VBuf b) = b"
| "bytes_of v = []"

fun serial_of :: "jsval \<Rightarrow> serial option" where
  "serial_of (VStr s) = Some (Text s)"
| "serial_of (VBuf b) = Some (Bytes b)"
| "serial_of v = None"

fun val_of_serial :: "serial \<Rightarrow> jsval" where
  "val_of_serial (Text s) = VStr s"
| "val_of_serial (Bytes b) = VBuf b"

text \<open>Modelled from the spec: \<open>bufferUtil.emptyBuffer(n)\<close> is not part of the sources; the
  layout table of the spec has one padding byte \<open>0x00\<close> in its place.\<close>

definition emptyBuffer :: "nat \<Rightarrow> byte list" where
  "emptyBuffer n = replicate n 0"

section \<open>Constants of the module\<close>

named_theorems layout \<open>the sizes and offsets of the serialized form\<close>

definition MINIMUM_ENTROPY_BITS :: rat where [layout]: "MINIMUM_ENTROPY_BITS = 128"
definition BITS_TO_BYTES :: rat where [layout]: "BITS_TO_BYTES = 1 / 8"
definition MAXIMUM_ENTROPY_BITS :: rat where [layout]: "MAXIMUM_ENTROPY_BITS = 512"

definition Hardened :: int where "Hardened = 0x80000000"
definition RootElementAlias :: "string list" where
  "RootElementAlias = [''m'', ''M'', ''m'' @ [CHR 0x27], ''M'' @ [CHR 0x27]]"

definition VersionSize :: nat where [layout]: "VersionSize = 4"
definition DepthSize :: nat where [layout]: "DepthSize = 1"
definition ParentFingerPrintSize :: nat where [layout]: "ParentFingerPrintSize = 4"
definition ChildIndexSize :: nat where [layout]: "ChildIndexSize = 4"
definition ChainCodeSize :: nat where [layout]: "ChainCodeSize = 32"
definition PrivateKeySize :: nat where [layout]: "PrivateKeySize = 32"
definition CheckSumSize :: nat where [layout]: "CheckSumSize = 4"

definition DataLength :: nat where [layout]: "DataLength = 78"
definition SerializedByteSize :: nat where [layout]: "SerializedByteSize = 82"

definition VersionStart :: nat where [layout]: "VersionStart = 0"
definition VersionEnd :: nat where [layout]: "VersionEnd = VersionStart + VersionSize"
definition DepthStart :: nat where [layout]: "DepthStart = VersionEnd"
definition DepthEnd :: nat where [layout]: "DepthEnd = DepthStart + DepthSize"
definition ParentFingerPrintStart :: nat where [layout]: "ParentFingerPrintStart = DepthEnd"
definition ParentFingerPrintEnd :: nat where
  [layout]: "ParentFingerPrintEnd = ParentFingerPrintStart + ParentFingerPrintSize"
definition ChildIndexStart :: nat where [layout]: "ChildIndexStart = ParentFingerPrintEnd"
definition ChildIndexEnd :: nat where [layout]: "ChildIndexEnd = ChildIndexStart + ChildIndexSize"
definition ChainCodeStart :: nat where [layout]: "ChainCodeStart = ChildIndexEnd"
definition ChainCodeEnd :: nat where [layout]: "ChainCodeEnd = ChainCodeStart + ChainCodeSize"
definition PrivateKeyStart :: nat where [layout]: "PrivateKeyStart = ChainCodeEnd + 1"
definition PrivateKeyEnd :: nat where [layout]: "PrivateKeyEnd = PrivateKeyStart + PrivateKeySize"
definition ChecksumStart :: nat where [layout]: "ChecksumStart = PrivateKeyEnd"
definition ChecksumEnd :: nat where [layout]: "ChecksumEnd = ChecksumStart + CheckSumSize"

section \<open>Validation of the serialized form\<close>

definition validateNetwork :: "'c collaborators \<Rightarrow> byte list \<Rightarrow> jsval \<Rightarrow> error option" where
  "validateNetwork P data networkArg =
     (case Network_get P networkArg of
        None \<Rightarrow> Some InvalidNetworkArgument
      | Some net \<Rightarrow>
          (let version = slice 0 4 data in
           if bufferUtil_integerFromBuffer P version \<noteq> net_xprivkey net
           then Some InvalidNetwork
           else None))"

text \<open>\<open>None\<close> is the \<open>null\<close> the function returns for a valid input.\<close>

definition getSerializedError :: "'c collaborators \<Rightarrow> jsval \<Rightarrow> jsval \<Rightarrow> error option" where
  "getSerializedError P data net =
     (if \<not> (isString data \<or> isBuffer data) then Some InvalidArgument
      else if \<not> Base58_validCharacters P data then Some InvalidB58Char
      else case Base58Check_decode P data of
        None \<Rightarrow> Some InvalidB58Checksum
      | Some decoded \<Rightarrow>
          if length decoded \<noteq> DataLength then Some InvalidLength
          else if \<not> isUndefined net then
            (case validateNetwork P decoded net of Some e \<Rightarrow> Some e | None \<Rightarrow> None)
          else None)"

definition isValidSerialized :: "'c collaborators \<Rightarrow> jsval \<Rightarrow> jsval \<Rightarrow> bool" where
  "isValidSerialized P data net = (getSerializedError P data net = None)"

section \<open>Building a key\<close>

text \<open>The argument of \<open>_buildFromBuffers\<close>: an object whose fields are meant to be
  buffers. They are values of any shape until \<open>_validateBufferArguments\<close> has looked at
  them; \<open>xprivkey\<close> is absent, or the text (or bytes) the fields were decoded from.\<close>

record bufargs =
  a_version :: jsval
  a_depth :: jsval
  a_parentFingerPrint :: jsval
  a_childIndex :: jsval
  a_chainCode :: jsval
  a_privateKey :: jsval
  a_checksum :: jsval
  a_xprivkey :: "serial option"

text \<open>The two \<open>assert\<close>s of \<open>checkBuffer\<close>.\<close>

definition checkBuffer :: "jsval \<Rightarrow> nat \<Rightarrow> error + unit" where
  "checkBuffer buff sz =
     (if \<not> isBuffer buff then Inl AssertionError
      else if length (bytes_of buff) \<noteq> sz then Inl AssertionError
      else Inr ())"

text \<open>Statements in sequence: the first that throws ends the run.\<close>

fun inSequence :: "(error + unit) list \<Rightarrow> error + unit" where
  "inSequence [] = Inr ()"
| "inSequence (c # cs) = (case c of Inl e \<Rightarrow> Inl e | Inr u \<Rightarrow> inSequence cs)"

text \<open>\<open>arg.checksum && arg.checksum.length\<close>\<close>

definition checksumGiven :: "bufargs \<Rightarrow> bool" where
  "checksumGiven arg = (truthy (a_checksum arg) \<and> truthy (getProp (a_checksum arg) ''length''))"

definition validateBufferArguments :: "bufargs \<Rightarrow> error + unit" where
  "validateBufferArguments arg =
     inSequence
       ([checkBuffer (a_version arg) VersionSize,
         checkBuffer (a_depth arg) DepthSize,
         checkBuffer (a_parentFingerPrint arg) ParentFingerPrintSize,
         checkBuffer (a_childIndex arg) ChildIndexSize,
         checkBuffer (a_chainCode arg) ChainCodeSize,
         checkBuffer (a_privateKey arg) PrivateKeySize]
        @ (if checksumGiven arg then [checkBuffer (a_checksum arg) CheckSumSize] else []))"

text \<open>\<open>!arg.xprivkey\<close> holds when the field is absent or the empty string: the text is
  then computed from the fields.\<close>

definition buildFromBuffers :: "'c collaborators \<Rightarrow> bufargs \<Rightarrow> error + hdkey" where
  "buildFromBuffers P arg =
     (case validateBufferArguments arg of
        Inl e \<Rightarrow> Inl e
      | Inr u \<Rightarrow>
         (let sequence =
                [bytes_of (a_version arg), bytes_of (a_depth arg),
                 bytes_of (a_parentFingerPrint arg), bytes_of (a_childIndex arg),
                 bytes_of (a_chainCode arg), emptyBuffer 1, bytes_of (a_privateKey arg)];
              concat' = concat sequence
          in if checksumGiven arg \<and>
                Buffer_toString P (bytes_of (a_checksum arg))
                  \<noteq> Buffer_toString P (Base58Check_checksum P concat')
             then Inl InvalidB58Checksum
             else
              (let checksum =
                     (if checksumGiven arg then bytes_of (a_checksum arg)
                      else Base58Check_checksum P concat');
                   xprv =
                     (case a_xprivkey arg of
                        None \<Rightarrow> Text (Base58Check_encode P (concat sequence))
                      | Some (Text s) \<Rightarrow>
                          if s = [] then Text (Base58Check_encode P (concat sequence)) else Text s
                      | Some (Bytes b) \<Rightarrow> Bytes b);
                   net =
                     Network_get P
                       (VNum (JInt (bufferUtil_integerFromBuffer P (bytes_of (a_version arg)))));
                   dep = bufferUtil_integerFromSingleByteBuffer P (bytes_of (a_depth arg));
                   bn = BN_fromBuffer (bytes_of (a_privateKey arg))
               in if \<not> PrivateKey_new P bn then Inl PrivateKeyError
                  else
                   (let pub = PublicKey_toBuffer P bn;
                        fp = slice 0 ParentFingerPrintSize (Hash_sha256ripemd160 P pub)
                    in case HDPublicKey_new P net (bytes_of (a_depth arg))
                              (bytes_of (a_parentFingerPrint arg)) (bytes_of (a_childIndex arg))
                              (bytes_of (a_chainCode arg)) pub of
                         None \<Rightarrow> Inl HDPublicKeyError
                       | Some xpub \<Rightarrow>
                           Inr \<lparr>buffers =
                                  \<lparr>b_version = bytes_of (a_version arg),
                                   b_depth = bytes_of (a_depth arg),
                                   b_parentFingerPrint = bytes_of (a_parentFingerPrint arg),
                                   b_childIndex = bytes_of (a_childIndex arg),
                                   b_chainCode = bytes_of (a_chainCode arg),
                                   b_privateKey = bytes_of (a_privateKey arg),
                                   b_checksum = checksum,
                                   b_xprivkey = a_xprivkey arg\<rparr>,
                                xprivkey = xprv, network = net, depth = dep, privateKey = bn,
                                publicKey = pub, fingerPrint = fp, xpubkey = xpub\<rparr>))))"

text \<open>\<open>bufferUtil.hexToBuffer(v)\<close> on a value known to be a string.\<close>

fun hexToBuffer :: "'c collaborators \<Rightarrow> jsval \<Rightarrow> error + jsval" where
  "hexToBuffer P (VStr s) =
     (case bufferUtil_hexToBuffer P s of None \<Rightarrow> Inl HexError | Some b \<Rightarrow> Inr (VBuf b))"
| "hexToBuffer P v = Inl HexError"

text \<open>The object literal of \<open>_buildFromObject\<close>, field by field in the order of the
  source; \<open>Network.get(arg.network).xprivkey\<close> is a \<open>TypeError\<close> when the registry does
  not know the network.\<close>

definition buildFromObject :: "'c collaborators \<Rightarrow> jsval \<Rightarrow> error + hdkey" where
  "buildFromObject P arg =
     (if arg = VUndefined \<or> arg = VNull then Inl TypeError else
      case (if truthy (getProp arg ''network'')
            then (case Network_get P (getProp arg ''network'') of
                    None \<Rightarrow> Inl TypeError
                  | Some net \<Rightarrow>
                      Inr (VBuf (bufferUtil_integerAsBuffer P (VNum (JInt (net_xprivkey net))))))
            else Inr (getProp arg ''version'')) of
        Inl e \<Rightarrow> Inl e
      | Inr version \<Rightarrow>
     (case (if isString (getProp arg ''chainCode'')
            then hexToBuffer P (getProp arg ''chainCode'')
            else Inr (getProp arg ''chainCode'')) of
        Inl e \<Rightarrow> Inl e
      | Inr chainCode \<Rightarrow>
     (case (if isString (getProp arg ''privateKey'') \<and> isHexa (getProp arg ''privateKey'')
            then hexToBuffer P (getProp arg ''privateKey'')
            else Inr (getProp arg ''privateKey'')) of
        Inl e \<Rightarrow> Inl e
      | Inr privateKey' \<Rightarrow>
          buildFromBuffers P
            \<lparr>a_version = version,
             a_depth = VBuf (bufferUtil_integerAsSingleByteBuffer P (getProp arg ''depth'')),
             a_parentFingerPrint =
               (if isNumber (getProp arg ''parentFingerPrint'')
                then VBuf (bufferUtil_integerAsBuffer P (getProp arg ''parentFingerPrint''))
                else getProp arg ''parentFingerPrint''),
             a_childIndex =
               (if isNumber (getProp arg ''childIndex'')
                then VBuf (bufferUtil_integerAsBuffer P (getProp arg ''childIndex''))
                else getProp arg ''childIndex''),
             a_chainCode = chainCode,
             a_privateKey = privateKey',
             a_checksum =
               (if truthy (getProp arg ''checksum'')
                then (if truthy (getProp (getProp arg ''checksum'') ''length'')
                      then getProp arg ''checksum''
                      else VBuf (bufferUtil_integerAsBuffer P (getProp arg ''checksum'')))
                else VUndefined),
             a_xprivkey = None\<rparr>)))"

definition buildFromJson :: "'c collaborators \<Rightarrow> jsval \<Rightarrow> error + hdkey" where
  "buildFromJson P arg =
     (case JSON_parse P arg of None \<Rightarrow> Inl SyntaxError | Some v \<Rightarrow> buildFromObject P v)"

definition buildFromSerialized :: "'c collaborators \<Rightarrow> jsval \<Rightarrow> error + hdkey" where
  "buildFromSerialized P arg =
     (case Base58Check_decode P arg of
        None \<Rightarrow> Inl Base58CheckError
      | Some decoded \<Rightarrow>
          buildFromBuffers P
            \<lparr>a_version = VBuf (slice VersionStart VersionEnd decoded),
             a_depth = VBuf (slice DepthStart DepthEnd decoded),
             a_parentFingerPrint =
               VBuf (slice ParentFingerPrintStart ParentFingerPrintEnd decoded),
             a_childIndex = VBuf (slice ChildIndexStart ChildIndexEnd decoded),
             a_chainCode = VBuf (slice ChainCodeStart ChainCodeEnd decoded),
             a_privateKey = VBuf (slice PrivateKeyStart PrivateKeyEnd decoded),
             a_checksum = VBuf (slice ChecksumStart ChecksumEnd decoded),
             a_xprivkey = serial_of arg\<rparr>)"

section \<open>The constructor and the seed generator\<close>

text \<open>The body of \<open>if (arg) { ... }\<close> in the constructor: the dispatch on the shape of a
  truthy argument that is not a key already.\<close>

definition construct :: "'c collaborators \<Rightarrow> jsval \<Rightarrow> error + hdkey" where
  "construct P arg =
     (if isString arg \<or> isBuffer arg then
        (if isValidSerialized P arg VUndefined then buildFromSerialized P arg
         else if truthy (isValidJson P arg) then buildFromJson P arg
         else (case getSerializedError P arg VUndefined of
                 Some e \<Rightarrow> Inl e
               | None \<Rightarrow> Inl ThrownNull))
      else if isObject arg then buildFromObject P arg
      else Inl UnrecognizedArgument)"

text \<open>\<open>fromSeed\<close> ends with \<open>new HDPrivateKey({...})\<close> on an object literal, which is
  truthy and not a key: the constructor runs \<open>construct\<close> on it (lemma
  \<open>HDPrivateKey_object\<close> below).\<close>

definition fromSeed :: "'c collaborators \<Rightarrow> jsval \<Rightarrow> jsval \<Rightarrow> error + hdkey" where
  "fromSeed P hexa net =
     (case (if isHexa hexa then hexToBuffer P hexa else Inr hexa) of
        Inl e \<Rightarrow> Inl e
      | Inr hexa' \<Rightarrow>
          if \<not> isBuffer hexa' then Inl InvalidEntropyArgument
          else if rat_of_nat (length (bytes_of hexa')) < MINIMUM_ENTROPY_BITS * BITS_TO_BYTES
          then Inl NotEnoughEntropy
          else if rat_of_nat (length (bytes_of hexa')) > MAXIMUM_ENTROPY_BITS * BITS_TO_BYTES
          then Inl TooMuchEntropy
          else
           (let hash = Hash_sha512hmac P (bytes_of hexa') (Buffer_of_string ''Bitcoin seed'')
            in construct P
                 (VObj
                   [(''network'',
                       VNet (case Network_get P net of Some n \<Rightarrow> n | None \<Rightarrow> Network_livenet P)),
                    (''depth'', VNum (JInt 0)),
                    (''parentFingerPrint'', VNum (JInt 0)),
                    (''childIndex'', VNum (JInt 0)),
                    (''privateKey'', VBuf (slice 0 32 hash)),
                    (''chainCode'', VBuf (slice 32 64 hash))])))"

definition generateRandomly :: "'c collaborators \<Rightarrow> jsval \<Rightarrow> error + hdkey" where
  "generateRandomly P net = fromSeed P (VBuf (Random_getRandomBuffer P 64)) net"

definition HDPrivateKey :: "'c collaborators \<Rightarrow> jsval \<Rightarrow> error + hdkey" where
  "HDPrivateKey P arg =
     (case arg of
        VKey k \<Rightarrow> Inr k
      | _ \<Rightarrow> if truthy arg then construct P arg else generateRandomly P VUndefined)"

definition toString :: "hdkey \<Rightarrow> serial" where
  "toString this = xprivkey this"

section \<open>Derivation\<close>

text \<open>Comparison and addition of a number with an integer constant; every comparison
  with NaN is false.\<close>

fun num_ge :: "jsnum \<Rightarrow> int \<Rightarrow> bool" where
  "num_ge (JInt i) h = (i \<ge> h)"
| "num_ge JNaN h = False"

fun num_lt :: "jsnum \<Rightarrow> int \<Rightarrow> bool" where
  "num_lt (JInt i) h = (i < h)"
| "num_lt JNaN h = False"

fun num_add :: "jsnum \<Rightarrow> int \<Rightarrow> jsnum" where
  "num_add (JInt i) h = JInt (i + h)"
| "num_add JNaN h = JNaN"

fun val_of_network :: "Network option \<Rightarrow> jsval" where
  "val_of_network None = VUndefined"
| "val_of_network (Some n) = VNet n"

text \<open>The cache is shared state: the function takes it and returns it, updated when a
  key has been computed.\<close>

definition deriveWithNumber ::
  "'c collaborators \<Rightarrow> 'c \<Rightarrow> hdkey \<Rightarrow> jsnum \<Rightarrow> jsval \<Rightarrow> error + (hdkey \<times> 'c)" where
  "deriveWithNumber P c this index hardened =
     (let hardened1 = (if num_ge index Hardened then VBool True else hardened);
          index1 =
            (if num_lt index Hardened \<and> truthy hardened1 then num_add index Hardened
             else index)
      in case HDKeyCache_get P c (xprivkey this) index1 hardened1 of
           Some cached \<Rightarrow> Inr (cached, c)
         | None \<Rightarrow>
            (let indexBuffer = bufferUtil_integerAsBuffer P (VNum index1);
                 data =
                   (if truthy hardened1
                    then concat [[0], PrivateKey_toBuffer P (privateKey this), indexBuffer]
                    else concat [publicKey this, indexBuffer]);
                 hash = Hash_sha512hmac P data (b_chainCode (buffers this));
                 leftPart = BN_fromBuffer (slice 0 32 hash);
                 chainCode = slice 32 64 hash;
                 privateKey' =
                   BN_toBuffer 32 ((leftPart + privateKey this) mod Point_getN P)
             in case construct P
                       (VObj
                         [(''network'', val_of_network (network this)),
                          (''depth'', VNum (JInt (depth this + 1))),
                          (''parentFingerPrint'', VBuf (fingerPrint this)),
                          (''childIndex'', VNum index1),
                          (''chainCode'', VBuf chainCode),
                          (''privateKey'', VBuf privateKey')]) of
                  Inl e \<Rightarrow> Inl e
                | Inr derived \<Rightarrow>
                    Inr (derived, HDKeyCache_set P c (xprivkey this) index1 hardened1 derived)))"

text \<open>\<open>path.split('/')\<close>: never empty; the empty string splits into one empty segment.\<close>

fun split :: "char \<Rightarrow> string \<Rightarrow> string list" where
  "split sep [] = [[]]"
| "split sep (x # xs) =
     (if x = sep then [] # split sep xs
      else (case split sep xs of
              [] \<Rightarrow> [[x]]
            | seg # segs \<Rightarrow> (x # seg) # segs))"

text \<open>\<open>parseInt(s)\<close> with no radix: leading white space is skipped, one sign is read, a
  prefix \<open>0x\<close> or \<open>0X\<close> selects radix 16, and the longest run of digits of the radix is the
  value; no digit at all gives NaN. White space is the ASCII part of the language's.\<close>

definition isWhiteSpace :: "char \<Rightarrow> bool" where
  "isWhiteSpace c = (of_char c \<in> {9, 10, 11, 12, 13, 32 :: nat})"

definition digitValue :: "char \<Rightarrow> nat option" where
  "digitValue c =
     (let n = (of_char c :: nat) in
      if 48 \<le> n \<and> n \<le> 57 then Some (n - 48)
      else if 97 \<le> n \<and> n \<le> 122 then Some (n - 87)
      else if 65 \<le> n \<and> n \<le> 90 then Some (n - 55)
      else None)"

definition isDigitOf :: "nat \<Rightarrow> char \<Rightarrow> bool" where
  "isDigitOf radix c = (case digitValue c of None \<Rightarrow> False | Some d \<Rightarrow> d < radix)"

definition digitsValue :: "nat \<Rightarrow> string \<Rightarrow> nat" where
  "digitsValue radix ds = foldl (\<lambda>a c. a * radix + (case digitValue c of Some d \<Rightarrow> d | None \<Rightarrow> 0)) 0 ds"

definition parseInt :: "string \<Rightarrow> jsnum" where
  "parseInt str =
     (let s1 = dropWhile isWhiteSpace str;
          sgn' = (if take 1 s1 = ''-'' then - 1 else 1 :: int);
          s2 = (if take 1 s1 = ''-'' \<or> take 1 s1 = ''+'' then drop 1 s1 else s1);
          hex = (take 2 s2 = ''0x'' \<or> take 2 s2 = ''0X'');
          radix = (if hex then 16 else 10);
          s3 = (if hex then drop 2 s2 else s2);
          z = takeWhile (isDigitOf radix) s3
      in if z = [] then JNaN else JInt (sgn' * int (digitsValue radix z)))"

text \<open>\<open>n.toString()\<close>: the decimal rendering of an integer, \<open>NaN\<close> for NaN.\<close>

fun decimal :: "nat \<Rightarrow> string" where
  "decimal n =
     (if n < 10 then [char_of (48 + n)] else decimal (n div 10) @ [char_of (48 + n mod 10)])"

declare decimal.simps [simp del]

fun num_toString :: "jsnum \<Rightarrow> string" where
  "num_toString JNaN = ''NaN''"
| "num_toString (JInt i) = (if i < 0 then ''-'' @ decimal (nat (- i)) else decimal (nat i))"

text \<open>The loop \<open>for (var step in steps)\<close> of \<open>_deriveFromString\<close>, on the segments that
  follow the root.\<close>

fun deriveSteps ::
  "'c collaborators \<Rightarrow> 'c \<Rightarrow> hdkey \<Rightarrow> string list \<Rightarrow> error + (hdkey \<times> 'c)" where
  "deriveSteps P c result [] = Inr (result, c)"
| "deriveSteps P c result (step # steps) =
     (let index = parseInt step;
          hardened = (step \<noteq> num_toString index)
      in case deriveWithNumber P c result index (VBool hardened) of
           Inl e \<Rightarrow> Inl e
         | Inr (result', c') \<Rightarrow> deriveSteps P c' result' steps)"

definition deriveFromString ::
  "'c collaborators \<Rightarrow> 'c \<Rightarrow> hdkey \<Rightarrow> string \<Rightarrow> error + (hdkey \<times> 'c)" where
  "deriveFromString P c this path =
     (let steps = split CHR ''/'' path
      in if path \<in> set RootElementAlias then Inr (this, c)
         else (case steps of
                 [] \<Rightarrow> Inl InvalidPath
               | first # rest \<Rightarrow>
                   if first \<notin> set RootElementAlias then Inl InvalidPath
                   else deriveSteps P c this rest))"

definition derive ::
  "'c collaborators \<Rightarrow> 'c \<Rightarrow> hdkey \<Rightarrow> jsval \<Rightarrow> jsval \<Rightarrow> error + (hdkey \<times> 'c)" where
  "derive P c this arg hardened =
     (case arg of
        VNum index \<Rightarrow> deriveWithNumber P c this index hardened
      | VStr path \<Rightarrow> deriveFromString P c this path
      | _ \<Rightarrow> Inl InvalidDerivationArgument)"

section \<open>What the theorems compare the code with\<close>

text \<open>The index and the flag after the two normalizing statements at the head of
  \<open>_deriveWithNumber\<close>.\<close>

definition normalizedHardened :: "jsnum \<Rightarrow> jsval \<Rightarrow> jsval" where
  "normalizedHardened index hardened = (if num_ge index Hardened then VBool True else hardened)"

definition normalizedIndex :: "jsnum \<Rightarrow> jsval \<Rightarrow> jsnum" where
  "normalizedIndex index hardened =
     (if num_lt index Hardened \<and> truthy (normalizedHardened index hardened)
      then num_add index Hardened else index)"

text \<open>The input of the HMAC as the specification words it: \<open>0x00\<close>, the parent's scalar
  on 32 bytes and the index on 4 bytes for a hardened child; the parent's serialized public
  key and the index on 4 bytes otherwise.\<close>

definition childInput :: "'c collaborators \<Rightarrow> hdkey \<Rightarrow> int \<Rightarrow> byte list" where
  "childInput P parent i =
     (if 2 ^ 31 \<le> i
      then [0] @ BN_toBuffer 32 (privateKey parent) @ BN_toBuffer 4 (nat i)
      else PublicKey_toBuffer P (privateKey parent) @ BN_toBuffer 4 (nat i))"

definition childHash :: "'c collaborators \<Rightarrow> hdkey \<Rightarrow> int \<Rightarrow> byte list" where
  "childHash P parent i = Hash_sha512hmac P (childInput P parent i) (b_chainCode (buffers parent))"

definition childScalar :: "'c collaborators \<Rightarrow> hdkey \<Rightarrow> int \<Rightarrow> nat" where
  "childScalar P parent i =
     (BN_fromBuffer (take 32 (childHash P parent i)) + privateKey parent) mod Point_getN P"

text \<open>What \<open>_deriveWithNumber\<close> computes when the cache has no entry: the statements
  between the cache lookup and the cache update, on the normalized index and flag.\<close>

definition computeChild :: "'c collaborators \<Rightarrow> hdkey \<Rightarrow> jsnum \<Rightarrow> jsval \<Rightarrow> error + hdkey" where
  "computeChild P this index1 hardened1 =
     (let indexBuffer = bufferUtil_integerAsBuffer P (VNum index1);
          data =
            (if truthy hardened1
             then concat [[0], PrivateKey_toBuffer P (privateKey this), indexBuffer]
             else concat [publicKey this, indexBuffer]);
          hash = Hash_sha512hmac P data (b_chainCode (buffers this));
          leftPart = BN_fromBuffer (slice 0 32 hash);
          chainCode = slice 32 64 hash;
          privateKey' = BN_toBuffer 32 ((leftPart + privateKey this) mod Point_getN P)
      in construct P
           (VObj
             [(''network'', val_of_network (network this)),
              (''depth'', VNum (JInt (depth this + 1))),
              (''parentFingerPrint'', VBuf (fingerPrint this)),
              (''childIndex'', VNum index1),
              (''chainCode'', VBuf chainCode),
              (''privateKey'', VBuf privateKey')]))"

text \<open>The cache is transparent at an entry when it is empty there or holds the key that
  the computation would produce.\<close>

definition cacheTransparent :: "'c collaborators \<Rightarrow> 'c \<Rightarrow> hdkey \<Rightarrow> jsnum \<Rightarrow> jsval \<Rightarrow> bool" where
  "cacheTransparent P c this index1 hardened1 =
     (case HDKeyCache_get P c (xprivkey this) index1 hardened1 of
        None \<Rightarrow> True
      | Some cached \<Rightarrow> computeChild P this index1 hardened1 = Inr cached)"

text \<open>Modelled from the spec: \<open>./hdkeycache\<close> is not part of the sources; the spec keys the
  cache by the serialized parent, the normalized index and the hardened flag, a boolean.
  A cache reads the flag it is given as a boolean when it does not tell two values of
  the same truthiness apart.\<close>

definition cacheKeyedByFlag :: "'c collaborators \<Rightarrow> bool" where
  "cacheKeyedByFlag P =
     ((\<forall>c x i h. HDKeyCache_get P c x i h = HDKeyCache_get P c x i (VBool (truthy h))) \<and>
      (\<forall>c x i h k. HDKeyCache_set P c x i h k = HDKeyCache_set P c x i (VBool (truthy h)) k))"

text \<open>A chain of numeric \<open>derive\<close> calls, each on the key the previous one returned.\<close>

fun deriveChain ::
  "'c collaborators \<Rightarrow> error + (hdkey \<times> 'c) \<Rightarrow> (jsnum \<times> bool) list \<Rightarrow> error + (hdkey \<times> 'c)" where
  "deriveChain P r [] = r"
| "deriveChain P r ((index, hardened) # steps) =
     deriveChain P
       (case r of
          Inl e \<Rightarrow> Inl e
        | Inr (k, c) \<Rightarrow> derive P c k (VNum index) (VBool hardened))
       steps"

text \<open>A segment of a path read as the specification words it.\<close>

definition stepOf :: "string \<Rightarrow> jsnum \<times> bool" where
  "stepOf seg = (parseInt seg, seg \<noteq> num_toString (parseInt seg))"

text \<open>Modelled from the spec: \<open>./util/buffer\<close> is not part of the sources. Within their
  ranges its integer helpers are the fixed-width big-endian encodings of the layout
  table: four bytes for an integer below \<open>2^32\<close>, one byte for an integer below \<open>256\<close>,
  and back.\<close>

definition bufferUtilLaws :: "'c collaborators \<Rightarrow> bool" where
  "bufferUtilLaws P =
     ((\<forall>n. 0 \<le> n \<and> n < 2 ^ 32 \<longrightarrow>
          bufferUtil_integerAsBuffer P (VNum (JInt n)) = BN_toBuffer 4 (nat n)) \<and>
      (\<forall>n. 0 \<le> n \<and> n < 256 \<longrightarrow>
          bufferUtil_integerAsSingleByteBuffer P (VNum (JInt n)) = [of_int n]) \<and>
      (\<forall>n. n < 2 ^ 31 \<longrightarrow> bufferUtil_integerFromBuffer P (BN_toBuffer 4 n) = int n) \<and>
      (\<forall>b. bufferUtil_integerFromSingleByteBuffer P [b] = uint b))"

text \<open>Modelled from the spec: the hash primitives return 64 and 20 bytes, a serialized
  public key has 33 bytes, the scalar of a private key is serialized on 32 bytes, and the
  curve order is a positive integer of at most 256 bits.\<close>

definition cryptoLaws :: "'c collaborators \<Rightarrow> bool" where
  "cryptoLaws P =
     ((\<forall>d k. length (Hash_sha512hmac P d k) = 64) \<and>
      (\<forall>d. length (Hash_sha256ripemd160 P d) = 20) \<and>
      (\<forall>n. length (PublicKey_toBuffer P n) = 33) \<and>
      (\<forall>n. PrivateKey_toBuffer P n = BN_toBuffer 32 n) \<and>
      0 < Point_getN P \<and> Point_getN P \<le> 2 ^ 256)"

text \<open>The registry knows a network when it finds it by the object itself and by its
  version number.\<close>

definition registryKnows :: "'c collaborators \<Rightarrow> Network \<Rightarrow> bool" where
  "registryKnows P net =
     (Network_get P (VNet net) = Some net \<and>
      Network_get P (VNum (JInt (net_xprivkey net))) = Some net \<and>
      0 \<le> net_xprivkey net \<and> net_xprivkey net < 2 ^ 31)"

text \<open>The 78 bytes that \<open>_buildFromBuffers\<close> encodes.\<close>

definition payload :: "keybuffers \<Rightarrow> byte list" where
  "payload b =
     b_version b @ b_depth b @ b_parentFingerPrint b @ b_childIndex b @ b_chainCode b
       @ [0] @ b_privateKey b"

text \<open>The hash of a seed and the network of the master key, as \<open>fromSeed\<close> takes
  them.\<close>

definition seedHash :: "'c collaborators \<Rightarrow> byte list \<Rightarrow> byte list" where
  "seedHash P b = Hash_sha512hmac P b (Buffer_of_string ''Bitcoin seed'')"

definition seedNetwork :: "'c collaborators \<Rightarrow> jsval \<Rightarrow> Network" where
  "seedNetwork P net = (case Network_get P net of Some n \<Rightarrow> n | None \<Rightarrow> Network_livenet P)"

section \<open>A test double of the collaborators\<close>

text \<open>
  One concrete set of collaborators, on which the theorems are run: the two networks of
  the registry, a codec that writes every byte as two digits of the Base58 alphabet and
  appends a four-byte checksum, stand-ins for the hashes and the curve of the right
  widths, and a cache that is an association list keyed
  by the parent's text, the index and the truthiness of the flag. Nothing is proved
  about the real primitives from it; it shows that the hypotheses of the theorems can be
  met and lets the model run.
\<close>

definition livenet :: Network where
  "livenet = \<lparr>net_name = ''livenet'', net_xprivkey = 0x0488ade4\<rparr>"

definition testnet :: Network where
  "testnet = \<lparr>net_name = ''testnet'', net_xprivkey = 0x04358394\<rparr>"

fun test_Network_get :: "jsval \<Rightarrow> Network option" where
  "test_Network_get (VNet n) = (if n = livenet \<or> n = testnet then Some n else None)"
| "test_Network_get (VStr s) =
     (if s = ''livenet'' then Some livenet else if s = ''testnet'' then Some testnet else None)"
| "test_Network_get (VNum (JInt v)) =
     (if v = net_xprivkey livenet then Some livenet
      else if v = net_xprivkey testnet then Some testnet else None)"
| "test_Network_get v = None"

definition b58alphabet :: string where
  "b58alphabet = ''123456789ABCDEFGHJKLMNPQRSTUVWXYZabcdefghijkmnopqrstuvwxyz''"

fun indexFrom :: "nat \<Rightarrow> char \<Rightarrow> string \<Rightarrow> nat option" where
  "indexFrom k c [] = None"
| "indexFrom k c (x # xs) = (if c = x then Some k else indexFrom (k + 1) c xs)"

definition encodeByte :: "byte \<Rightarrow> string" where
  "encodeByte b = [b58alphabet ! (unat b div 58), b58alphabet ! (unat b mod 58)]"

fun decodePairs :: "string \<Rightarrow> byte list option" where
  "decodePairs [] = Some []"
| "decodePairs [c] = None"
| "decodePairs (c1 # c2 # cs) =
     (case indexFrom 0 c1 b58alphabet of
        None \<Rightarrow> None
      | Some i \<Rightarrow>
         (case indexFrom 0 c2 b58alphabet of
            None \<Rightarrow> None
          | Some j \<Rightarrow>
              if 256 \<le> i * 58 + j then None
              else (case decodePairs cs of
                      None \<Rightarrow> None
                    | Some bs \<Rightarrow> Some (of_nat (i * 58 + j) # bs))))"

text \<open>The stand-ins for the hashes weigh their input: the sum of its bytes and its
  length, spread over the width of the digest by one multiplication.\<close>

definition weigh :: "byte list \<Rightarrow> nat" where
  "weigh bs = foldl (\<lambda>a b. a + unat b) (Suc (length bs)) bs"

definition test_checksum :: "byte list \<Rightarrow> byte list" where
  "test_checksum p = BN_toBuffer 4 (weigh p * 2654435761)"

definition test_encode :: "byte list \<Rightarrow> string" where
  "test_encode p = concat (map encodeByte (p @ test_checksum p))"

fun test_decode :: "jsval \<Rightarrow> byte list option" where
  "test_decode (VStr s) =
     (case decodePairs s of
        None \<Rightarrow> None
      | Some bs \<Rightarrow>
          if length bs < 4 then None
          else if drop (length bs - 4) bs = test_checksum (take (length bs - 4) bs)
          then Some (take (length bs - 4) bs)
          else None)"
| "test_decode v = None"

definition test_toString :: "byte list \<Rightarrow> string" where
  "test_toString b = map (\<lambda>x. char_of (unat x)) b"

fun test_validCharacters :: "jsval \<Rightarrow> bool" where
  "test_validCharacters (VStr s) = list_all (\<lambda>c. c \<in> set b58alphabet) s"
| "test_validCharacters (VBuf b) = list_all (\<lambda>c. c \<in> set b58alphabet) (test_toString b)"
| "test_validCharacters v = False"

definition secp256k1_N :: nat where
  "secp256k1_N = 0xFFFFFFFFFFFFFFFFFFFFFFFFFFFFFFFEBAAEDCE6AF48A03BBFD25E8CD0364141"

fun test_integerAsBuffer :: "jsval \<Rightarrow> byte list" where
  "test_integerAsBuffer (VNum (JInt n)) = BN_toBuffer 4 (nat (n mod 2 ^ 32))"
| "test_integerAsBuffer v = [0, 0, 0, 0]"

fun test_integerAsSingleByteBuffer :: "jsval \<Rightarrow> byte list" where
  "test_integerAsSingleByteBuffer (VNum (JInt n)) = [of_int n]"
| "test_integerAsSingleByteBuffer v = [0]"

definition test_integerFromBuffer :: "byte list \<Rightarrow> int" where
  "test_integerFromBuffer b =
     (let u = int (BN_fromBuffer (take 4 b)) in if 2 ^ 31 \<le> u then u - 2 ^ 32 else u)"

fun test_integerFromSingleByteBuffer :: "byte list \<Rightarrow> int" where
  "test_integerFromSingleByteBuffer [] = 0"
| "test_integerFromSingleByteBuffer (x # xs) = uint x"

fun test_hexToBuffer :: "string \<Rightarrow> byte list option" where
  "test_hexToBuffer [] = Some []"
| "test_hexToBuffer [c] = None"
| "test_hexToBuffer (c1 # c2 # cs) =
     (case test_hexToBuffer cs of
        None \<Rightarrow> None
      | Some bs \<Rightarrow> Some (of_nat (digitsValue 16 [c1, c2]) # bs))"

definition test_HDPublicKey_new ::
  "Network option \<Rightarrow> byte list \<Rightarrow> byte list \<Rightarrow> byte list \<Rightarrow> byte list \<Rightarrow> byte list
    \<Rightarrow> string option" where
  "test_HDPublicKey_new net dep fp ci cc pub =
     (case net of
        None \<Rightarrow> None
      | Some n \<Rightarrow> Some (test_encode (dep @ fp @ ci @ cc @ pub)))"

type_synonym test_cache = "((serial \<times> jsnum \<times> bool) \<times> hdkey) list"

definition testEnv :: "test_cache collaborators" where
  "testEnv =
     \<lparr>Base58_validCharacters = test_validCharacters,
      Base58Check_decode = test_decode,
      Base58Check_encode = test_encode,
      Base58Check_checksum = test_checksum,
      Hash_sha512hmac =
        (\<lambda>d k. BN_toBuffer 64
           (weigh (k @ d)
             * 0x9E3779B97F4A7C15F39CC0605CEDC8341082276BF3A27251F86C6A11D0C18E952767F0B153D27B7F0347045B5BF1827F0184AFD5B2A3C96D42B1EDA3)),
      Hash_sha256ripemd160 =
        (\<lambda>d. BN_toBuffer 20 (weigh d * 0x9E3779B97F4A7C15F39CC0605CEDC8341082)),
      Network_get = test_Network_get,
      Network_livenet = livenet,
      Point_getN = secp256k1_N,
      PrivateKey_new = (\<lambda>n. 0 < n \<and> n < secp256k1_N),
      PrivateKey_toBuffer = BN_toBuffer 32,
      PublicKey_toBuffer = (\<lambda>n. 2 # BN_toBuffer 32 (n * 3 + 1)),
      HDPublicKey_new = test_HDPublicKey_new,
      Random_getRandomBuffer = (\<lambda>n. replicate n 42),
      JSON_parse = (\<lambda>v. None),
      Buffer_toString = test_toString,
      bufferUtil_integerAsBuffer = test_integerAsBuffer,
      bufferUtil_integerAsSingleByteBuffer = test_integerAsSingleByteBuffer,
      bufferUtil_integerFromBuffer = test_integerFromBuffer,
      bufferUtil_integerFromSingleByteBuffer = test_integerFromSingleByteBuffer,
      bufferUtil_hexToBuffer = test_hexToBuffer,
      HDKeyCache_get = (\<lambda>c x i h. map_of c (x, i, truthy h)),
      HDKeyCache_set = (\<lambda>c x i h k. ((x, i, truthy h), k) # c)\<rparr>"

section \<open>Evaluation and basic facts\<close>

lemma BN_toBuffer_numeral:
  "BN_toBuffer (numeral k) n = BN_toBuffer (pred_numeral k) (n div 256) @ [of_nat (n mod 256)]"
proof -
  have "numeral k = Suc (pred_numeral k)" by (rule numeral_eq_Suc)
  then show ?thesis by (metis BN_toBuffer.simps(2))
qed

section \<open>Errors of the builders\<close>

lemma HDPrivateKey_object: "HDPrivateKey P (VObj ps) = construct P (VObj ps)"
  by (simp add: HDPrivateKey_def)

lemma construct_object: "construct P (VObj ps) = buildFromObject P (VObj ps)"
  by (simp add: construct_def)

lemma checkBuffer_error: "checkBuffer v n = Inl e \<Longrightarrow> e = AssertionError"
  by (auto simp: checkBuffer_def split: if_splits)

lemma inSequence_error: "inSequence cs = Inl e \<Longrightarrow> Inl e \<in> set cs"
  by (induction cs) (auto split: sum.splits)

lemma validateBufferArguments_error:
  assumes "validateBufferArguments a = Inl e"
  shows "e = AssertionError"
proof -
  from assms obtain v n where "checkBuffer v n = Inl e"
    unfolding validateBufferArguments_def
    by (auto dest!: inSequence_error simp del: inSequence.simps split: if_splits)
  then show ?thesis by (rule checkBuffer_error)
qed

lemma buildFromBuffers_error:
  "buildFromBuffers P a = Inl e \<Longrightarrow>
     e \<in> {AssertionError, InvalidB58Checksum, PrivateKeyError, HDPublicKeyError}"
  by (auto simp: buildFromBuffers_def Let_def dest: validateBufferArguments_error
           split: sum.splits if_splits option.splits)

lemma hexToBuffer_error: "hexToBuffer P v = Inl e \<Longrightarrow> e = HexError"
  by (cases v) (auto split: option.splits)

lemma buildFromObject_error:
  "buildFromObject P v = Inl e \<Longrightarrow>
     e \<in> {TypeError, HexError, AssertionError, InvalidB58Checksum, PrivateKeyError,
          HDPublicKeyError}"
  unfolding buildFromObject_def
  by (auto dest!: buildFromBuffers_error hexToBuffer_error
           split: sum.splits if_splits option.splits)

lemma fromSeed_error:
  "fromSeed P v n = Inl e \<Longrightarrow>
     e \<in> {InvalidEntropyArgument, NotEnoughEntropy, TooMuchEntropy, TypeError, HexError,
          AssertionError, InvalidB58Checksum, PrivateKeyError, HDPublicKeyError}"
  unfolding fromSeed_def Let_def construct_object
  by (auto dest!: buildFromObject_error hexToBuffer_error split: sum.splits if_splits)

section \<open>Successful runs of the builders\<close>

lemma buildFromBuffers_buffers:
  assumes "length v = 4" "length d = 1" "length f = 4" "length ci = 4" "length cc = 32"
    and "length pk = 32"
    and "PrivateKey_new P (BN_fromBuffer pk)"
    and "HDPublicKey_new P
           (Network_get P (VNum (JInt (bufferUtil_integerFromBuffer P v)))) d f ci cc
           (PublicKey_toBuffer P (BN_fromBuffer pk)) = Some xpub"
  shows "buildFromBuffers P
           \<lparr>a_version = VBuf v, a_depth = VBuf d, a_parentFingerPrint = VBuf f,
            a_childIndex = VBuf ci, a_chainCode = VBuf cc, a_privateKey = VBuf pk,
            a_checksum = VUndefined, a_xprivkey = None\<rparr>
         = Inr \<lparr>buffers =
                  \<lparr>b_version = v, b_depth = d, b_parentFingerPrint = f, b_childIndex = ci,
                   b_chainCode = cc, b_privateKey = pk,
                   b_checksum = Base58Check_checksum P (v @ d @ f @ ci @ cc @ [0] @ pk),
                   b_xprivkey = None\<rparr>,
                xprivkey = Text (Base58Check_encode P (v @ d @ f @ ci @ cc @ [0] @ pk)),
                network = Network_get P (VNum (JInt (bufferUtil_integerFromBuffer P v))),
                depth = bufferUtil_integerFromSingleByteBuffer P d,
                privateKey = BN_fromBuffer pk,
                publicKey = PublicKey_toBuffer P (BN_fromBuffer pk),
                fingerPrint = take 4 (Hash_sha256ripemd160 P (PublicKey_toBuffer P (BN_fromBuffer pk))),
                xpubkey = xpub\<rparr>"
  using assms
  by (simp add: buildFromBuffers_def validateBufferArguments_def checkBuffer_def checksumGiven_def
                layout emptyBuffer_def slice_def Let_def)

lemma length_BN_toBuffer [simp]: "length (BN_toBuffer k n) = k"
  by (induction k arbitrary: n) simp_all

lemma entropy_bounds:
  "(rat_of_nat n < MINIMUM_ENTROPY_BITS * BITS_TO_BYTES) = (n < 16)"
  "(rat_of_nat n > MAXIMUM_ENTROPY_BITS * BITS_TO_BYTES) = (64 < n)"
  by (simp_all add: layout)

lemma fromSeed_checks:
  "fromSeed P (VBuf b) net =
     (if length b < 16 then Inl NotEnoughEntropy
      else if 64 < length b then Inl TooMuchEntropy
      else buildFromObject P
             (VObj
               [(''network'', VNet (seedNetwork P net)),
                (''depth'', VNum (JInt 0)),
                (''parentFingerPrint'', VNum (JInt 0)),
                (''childIndex'', VNum (JInt 0)),
                (''privateKey'', VBuf (take 32 (seedHash P b))),
                (''chainCode'', VBuf (slice 32 64 (seedHash P b)))]))"
  by (simp add: fromSeed_def entropy_bounds construct_object seedHash_def seedNetwork_def
                slice_def Let_def)


lemma buildFromObject_plain:
  assumes "getProp arg ''network'' = VNet n" and "Network_get P (VNet n) = Some n'"
    and "getProp arg ''parentFingerPrint'' = pf"
    and "getProp arg ''childIndex'' = VNum idx"
    and "getProp arg ''chainCode'' = VBuf cc"
    and "getProp arg ''privateKey'' = VBuf pk"
    and "getProp arg ''checksum'' = VUndefined"
    and "arg \<noteq> VUndefined" and "arg \<noteq> VNull"
  shows "buildFromObject P arg =
           buildFromBuffers P
             \<lparr>a_version = VBuf (bufferUtil_integerAsBuffer P (VNum (JInt (net_xprivkey n')))),
              a_depth = VBuf (bufferUtil_integerAsSingleByteBuffer P (getProp arg ''depth'')),
              a_parentFingerPrint =
                (if isNumber pf then VBuf (bufferUtil_integerAsBuffer P pf) else pf),
              a_childIndex = VBuf (bufferUtil_integerAsBuffer P (VNum idx)),
              a_chainCode = VBuf cc, a_privateKey = VBuf pk,
              a_checksum = VUndefined, a_xprivkey = None\<rparr>"
  using assms by (simp add: buildFromObject_def)

lemma BN_toBuffer_4_0: "BN_toBuffer 4 0 = [0, 0, 0, 0]"
  by (simp add: BN_toBuffer_numeral)

lemma integerAsBuffer_law:
  "bufferUtilLaws P \<Longrightarrow> 0 \<le> n \<Longrightarrow> n < 2 ^ 32 \<Longrightarrow>
     bufferUtil_integerAsBuffer P (VNum (JInt n)) = BN_toBuffer 4 (nat n)"
  by (simp add: bufferUtilLaws_def)

lemma integerAsSingleByteBuffer_law:
  "bufferUtilLaws P \<Longrightarrow> 0 \<le> n \<Longrightarrow> n < 256 \<Longrightarrow>
     bufferUtil_integerAsSingleByteBuffer P (VNum (JInt n)) = [of_int n]"
  by (simp add: bufferUtilLaws_def)

lemma integerFromBuffer_law:
  "bufferUtilLaws P \<Longrightarrow> n < 2 ^ 31 \<Longrightarrow>
     bufferUtil_integerFromBuffer P (BN_toBuffer 4 n) = int n"
  by (simp add: bufferUtilLaws_def)

lemma integerFromSingleByteBuffer_law:
  "bufferUtilLaws P \<Longrightarrow> bufferUtil_integerFromSingleByteBuffer P [b] = uint b"
  by (simp add: bufferUtilLaws_def)

lemma version_roundtrip:
  assumes "bufferUtilLaws P" and "registryKnows P n"
  shows "bufferUtil_integerAsBuffer P (VNum (JInt (net_xprivkey n)))
           = BN_toBuffer 4 (nat (net_xprivkey n))"
    and "Network_get P
           (VNum (JInt (bufferUtil_integerFromBuffer P (BN_toBuffer 4 (nat (net_xprivkey n))))))
           = Some n"
proof -
  from assms(2) have r: "0 \<le> net_xprivkey n" "net_xprivkey n < 2 ^ 31"
    and g: "Network_get P (VNum (JInt (net_xprivkey n))) = Some n"
    by (simp_all add: registryKnows_def)
  from r have r32: "net_xprivkey n < 2 ^ 32" by simp
  show "bufferUtil_integerAsBuffer P (VNum (JInt (net_xprivkey n)))
          = BN_toBuffer 4 (nat (net_xprivkey n))"
    by (rule integerAsBuffer_law [OF assms(1) r(1) r32])
  from r have "nat (net_xprivkey n) < 2 ^ 31" by (simp add: nat_less_iff)
  then have "bufferUtil_integerFromBuffer P (BN_toBuffer 4 (nat (net_xprivkey n)))
               = int (nat (net_xprivkey n))"
    by (rule integerFromBuffer_law [OF assms(1)])
  with r g show "Network_get P
           (VNum (JInt (bufferUtil_integerFromBuffer P (BN_toBuffer 4 (nat (net_xprivkey n))))))
           = Some n"
    by simp
qed

lemma fromSeed_master:
  assumes laws: "bufferUtilLaws P" "cryptoLaws P"
    and reg: "registryKnows P (seedNetwork P net)"
    and len: "16 \<le> length b" "length b \<le> 64"
    and pk: "PrivateKey_new P (BN_fromBuffer (take 32 (seedHash P b)))"
    and pub: "HDPublicKey_new P (Some (seedNetwork P net)) [0] [0, 0, 0, 0] [0, 0, 0, 0]
               (slice 32 64 (seedHash P b))
               (PublicKey_toBuffer P (BN_fromBuffer (take 32 (seedHash P b)))) = Some xpub"
  shows "fromSeed P (VBuf b) net =
           Inr \<lparr>buffers =
                  \<lparr>b_version = BN_toBuffer 4 (nat (net_xprivkey (seedNetwork P net))),
                   b_depth = [0], b_parentFingerPrint = [0, 0, 0, 0],
                   b_childIndex = [0, 0, 0, 0],
                   b_chainCode = slice 32 64 (seedHash P b),
                   b_privateKey = take 32 (seedHash P b),
                   b_checksum =
                     Base58Check_checksum P
                       (BN_toBuffer 4 (nat (net_xprivkey (seedNetwork P net))) @ [0]
                          @ [0, 0, 0, 0] @ [0, 0, 0, 0] @ slice 32 64 (seedHash P b) @ [0]
                          @ take 32 (seedHash P b)),
                   b_xprivkey = None\<rparr>,
                xprivkey =
                  Text (Base58Check_encode P
                       (BN_toBuffer 4 (nat (net_xprivkey (seedNetwork P net))) @ [0]
                          @ [0, 0, 0, 0] @ [0, 0, 0, 0] @ slice 32 64 (seedHash P b) @ [0]
                          @ take 32 (seedHash P b))),
                network = Some (seedNetwork P net),
                depth = 0,
                privateKey = BN_fromBuffer (take 32 (seedHash P b)),
                publicKey = PublicKey_toBuffer P (BN_fromBuffer (take 32 (seedHash P b))),
                fingerPrint =
                  take 4 (Hash_sha256ripemd160 P
                            (PublicKey_toBuffer P (BN_fromBuffer (take 32 (seedHash P b))))),
                xpubkey = xpub\<rparr>"
proof -
  let ?n = "seedNetwork P net"
  let ?H = "seedHash P b"
  have hl: "length ?H = 64" using laws(2) by (simp add: cryptoLaws_def seedHash_def)
  have g: "Network_get P (VNet ?n) = Some ?n" using reg by (simp add: registryKnows_def)
  have z4: "bufferUtil_integerAsBuffer P (VNum (JInt 0)) = [0, 0, 0, 0]"
    using integerAsBuffer_law [OF laws(1), of 0] by (simp add: BN_toBuffer_4_0)
  have z1: "bufferUtil_integerAsSingleByteBuffer P (VNum (JInt 0)) = [0]"
    using integerAsSingleByteBuffer_law [OF laws(1), of 0] by simp
  have d0: "bufferUtil_integerFromSingleByteBuffer P [0] = 0"
    using integerFromSingleByteBuffer_law [OF laws(1), of 0] by simp
  note v = version_roundtrip [OF laws(1) reg]
  have obj: "buildFromObject P
             (VObj
               [(''network'', VNet ?n),
                (''depth'', VNum (JInt 0)),
                (''parentFingerPrint'', VNum (JInt 0)),
                (''childIndex'', VNum (JInt 0)),
                (''privateKey'', VBuf (take 32 ?H)),
                (''chainCode'', VBuf (slice 32 64 ?H))])
        = buildFromBuffers P
             \<lparr>a_version = VBuf (BN_toBuffer 4 (nat (net_xprivkey ?n))),
              a_depth = VBuf [0],
              a_parentFingerPrint = VBuf [0, 0, 0, 0],
              a_childIndex = VBuf [0, 0, 0, 0],
              a_chainCode = VBuf (slice 32 64 ?H), a_privateKey = VBuf (take 32 ?H),
              a_checksum = VUndefined, a_xprivkey = None\<rparr>"
    by (subst buildFromObject_plain [where n = ?n and n' = ?n and pf = "VNum (JInt 0)"
          and idx = "JInt 0" and cc = "slice 32 64 ?H" and pk = "take 32 ?H"])
       (simp_all add: g v(1) z4 z1)
  have l32: "length (slice 32 64 ?H) = 32" "length (take 32 ?H) = 32"
    by (simp_all add: hl slice_def)
  have pub': "HDPublicKey_new P
           (Network_get P (VNum (JInt (bufferUtil_integerFromBuffer P
               (BN_toBuffer 4 (nat (net_xprivkey ?n))))))) [0] [0, 0, 0, 0] [0, 0, 0, 0]
           (slice 32 64 ?H) (PublicKey_toBuffer P (BN_fromBuffer (take 32 ?H))) = Some xpub"
    using pub by (simp add: v(2))
  note bb = buildFromBuffers_buffers [where P = P and xpub = xpub, OF _ _ _ _ l32 pk pub']
  show ?thesis
    using len by (simp add: fromSeed_checks obj bb v(2) d0)
qed

section \<open>The test double meets the laws\<close>

lemma replicate_numeral: "replicate (numeral k) x = x # replicate (pred_numeral k) x"
  by (simp add: numeral_eq_Suc)

lemma BN_fromBuffer_snoc: "BN_fromBuffer (bs @ [b]) = BN_fromBuffer bs * 256 + unat b"
  by (simp add: BN_fromBuffer_def)

lemma BN_fromBuffer_toBuffer: "BN_fromBuffer (BN_toBuffer k n) = n mod 256 ^ k"
proof (induction k arbitrary: n)
  case 0
  then show ?case by (simp add: BN_fromBuffer_def)
next
  case (Suc k)
  have "unat (word_of_nat (n mod 256) :: byte) = n mod 256"
    by (simp add: unat_of_nat)
  then have "BN_fromBuffer (BN_toBuffer (Suc k) n) = (n div 256) mod 256 ^ k * 256 + n mod 256"
    by (simp add: BN_fromBuffer_snoc Suc.IH)
  also have "\<dots> = n mod 256 ^ Suc k"
    by (simp add: mod_mult2_eq mult.commute)
  finally show ?case .
qed

lemma testEnv_fields:
  "Base58_validCharacters testEnv = test_validCharacters"
  "Base58Check_decode testEnv = test_decode"
  "Base58Check_encode testEnv = test_encode"
  "Base58Check_checksum testEnv = test_checksum"
  "Hash_sha512hmac testEnv d k =
     BN_toBuffer 64
       (weigh (k @ d)
         * 0x9E3779B97F4A7C15F39CC0605CEDC8341082276BF3A27251F86C6A11D0C18E952767F0B153D27B7F0347045B5BF1827F0184AFD5B2A3C96D42B1EDA3)"
  "Hash_sha256ripemd160 testEnv d = BN_toBuffer 20 (weigh d * 0x9E3779B97F4A7C15F39CC0605CEDC8341082)"
  "Network_get testEnv = test_Network_get"
  "Network_livenet testEnv = livenet"
  "Point_getN testEnv = secp256k1_N"
  "PrivateKey_new testEnv n = (0 < n \<and> n < secp256k1_N)"
  "PrivateKey_toBuffer testEnv = BN_toBuffer 32"
  "PublicKey_toBuffer testEnv n = 2 # BN_toBuffer 32 (n * 3 + 1)"
  "HDPublicKey_new testEnv = test_HDPublicKey_new"
  "Random_getRandomBuffer testEnv n = replicate n 42"
  "JSON_parse testEnv v = None"
  "Buffer_toString testEnv = test_toString"
  "bufferUtil_integerAsBuffer testEnv = test_integerAsBuffer"
  "bufferUtil_integerAsSingleByteBuffer testEnv = test_integerAsSingleByteBuffer"
  "bufferUtil_integerFromBuffer testEnv = test_integerFromBuffer"
  "bufferUtil_integerFromSingleByteBuffer testEnv = test_integerFromSingleByteBuffer"
  "bufferUtil_hexToBuffer testEnv = test_hexToBuffer"
  "HDKeyCache_get testEnv c x i h = map_of c (x, i, truthy h)"
  "HDKeyCache_set testEnv c x i h key = ((x, i, truthy h), key) # c"
  by (simp_all add: testEnv_def)

lemma testEnv_bufferUtilLaws: "bufferUtilLaws testEnv"
  by (auto simp: bufferUtilLaws_def testEnv_fields test_integerFromBuffer_def
                 BN_fromBuffer_toBuffer Let_def)

lemma testEnv_cryptoLaws: "cryptoLaws testEnv"
  by (simp add: cryptoLaws_def testEnv_fields secp256k1_N_def)

lemma testEnv_registry: "registryKnows testEnv livenet" "registryKnows testEnv testnet"
  by (simp_all add: registryKnows_def testEnv_fields livenet_def testnet_def)

lemmas evals =
  testEnv_fields weigh_def Buffer_of_string_def BN_toBuffer_numeral replicate_numeral
  BN_fromBuffer_def secp256k1_N_def slice_def

lemma seedHash_16:
  "seedHash testEnv (replicate 16 1) =
     [0, 0, 2, 233, 89, 87, 111, 221, 168, 228, 143, 105, 164, 114, 69, 245,
      200, 45, 37, 69, 197, 37, 182, 141, 191, 70, 142, 40, 78, 187, 175, 237,
      111, 213, 178, 167, 163, 167, 227, 96, 225, 145, 200, 89, 112, 142, 134,
      99, 35, 188, 194, 81, 39, 20, 88, 183, 143, 150, 232, 184, 50, 53, 125, 226]"
  by (simp add: seedHash_def evals)

lemma seedNetwork_default: "seedNetwork testEnv VUndefined = livenet"
  by (simp add: seedNetwork_def testEnv_fields)

section \<open>The constructor on a falsy argument\<close>

text \<open>
  Claim C10. For every falsy argument of the constructor (\<open>undefined\<close>, \<open>null\<close>,
  \<open>false\<close>, \<open>0\<close>, NaN, the empty string) construction takes the random path: it is
  \<open>fromSeed\<close> on the 64 bytes that the random source returns, with no network given, and
  it never fails with \<open>UnrecognizedArgument\<close>.
\<close>

theorem falsy_argument_generates_randomly:
  assumes "\<not> truthy arg"
  shows "HDPrivateKey P arg = fromSeed P (VBuf (Random_getRandomBuffer P 64)) VUndefined \<and>
         HDPrivateKey P arg \<noteq> Inl UnrecognizedArgument"
proof -
  have eq: "HDPrivateKey P arg = fromSeed P (VBuf (Random_getRandomBuffer P 64)) VUndefined"
    using assms by (cases arg) (simp_all add: HDPrivateKey_def generateRandomly_def)
  have "fromSeed P (VBuf (Random_getRandomBuffer P 64)) VUndefined \<noteq> Inl UnrecognizedArgument"
    using fromSeed_error [of P _ _ UnrecognizedArgument] by auto
  with eq show ?thesis by simp
qed

theorem falsy_argument_witness:
  "HDPrivateKey testEnv (VNum (JInt 0))
     = fromSeed testEnv (VBuf (Random_getRandomBuffer testEnv 64)) VUndefined \<and>
   HDPrivateKey testEnv (VNum (JInt 0)) \<noteq> Inl UnrecognizedArgument \<and>
   HDPrivateKey testEnv (VStr [])
     = fromSeed testEnv (VBuf (Random_getRandomBuffer testEnv 64)) VUndefined \<and>
   HDPrivateKey testEnv (VBool False)
     = fromSeed testEnv (VBuf (Random_getRandomBuffer testEnv 64)) VUndefined \<and>
   HDPrivateKey testEnv VNull
     = fromSeed testEnv (VBuf (Random_getRandomBuffer testEnv 64)) VUndefined"
  using falsy_argument_generates_randomly [of "VNum (JInt 0)" testEnv]
        falsy_argument_generates_randomly [of "VStr []" testEnv]
        falsy_argument_generates_randomly [of "VBool False" testEnv]
        falsy_argument_generates_randomly [of VNull testEnv]
  unfolding truthy.simps by blast

section \<open>The master key of a seed\<close>

text \<open>
  Claim C4. For a seed of 16 to 64 bytes, given as bytes or as the hex string that decodes
  to them, \<open>fromSeed\<close> computes \<open>H\<close>, the HMAC-SHA512 of the seed under the key
  \<open>Bitcoin seed\<close>, and returns the key whose private key is the first 32 bytes of \<open>H\<close>,
  whose chain code is the last 32, with depth 0, parent fingerprint 0 and child index 0,
  on the network that the registry finds for the network argument, or on livenet when it
  finds none. The key is a function of the seed and the network alone. The theorem
  assumes of the collaborators what the specification says of them: the helpers encode
  integers on fixed widths, the hash has 64 bytes, the registry knows the network, and the
  \<open>PrivateKey\<close> and \<open>HDPublicKey\<close> constructors accept the key.
\<close>

theorem fromSeed_master_key:
  assumes "bufferUtilLaws P" and "cryptoLaws P" and "registryKnows P (seedNetwork P net)"
    and "16 \<le> length b" and "length b \<le> 64"
    and "PrivateKey_new P (BN_fromBuffer (take 32 (seedHash P b)))"
    and "HDPublicKey_new P (Some (seedNetwork P net)) [0] [0, 0, 0, 0] [0, 0, 0, 0]
           (slice 32 64 (seedHash P b))
           (PublicKey_toBuffer P (BN_fromBuffer (take 32 (seedHash P b)))) = Some xpub"
  shows "\<exists>k. fromSeed P (VBuf b) net = Inr k \<and>
           seedHash P b = Hash_sha512hmac P b (Buffer_of_string ''Bitcoin seed'') \<and>
           b_privateKey (buffers k) = take 32 (seedHash P b) \<and>
           privateKey k = BN_fromBuffer (take 32 (seedHash P b)) \<and>
           b_chainCode (buffers k) = slice 32 64 (seedHash P b) \<and>
           depth k = 0 \<and> b_depth (buffers k) = [0] \<and>
           b_parentFingerPrint (buffers k) = [0, 0, 0, 0] \<and>
           b_childIndex (buffers k) = [0, 0, 0, 0] \<and>
           network k = Some (case Network_get P net of
                               Some n \<Rightarrow> n | None \<Rightarrow> Network_livenet P) \<and>
           (\<forall>s. isHexa (VStr s) \<and> bufferUtil_hexToBuffer P s = Some b \<longrightarrow>
                  fromSeed P (VStr s) net = Inr k)"
proof -
  have hex: "fromSeed P (VStr s) net = fromSeed P (VBuf b) net"
    if "isHexa (VStr s)" and "bufferUtil_hexToBuffer P s = Some b" for s
    using that by (simp add: fromSeed_def)
  show ?thesis
    unfolding fromSeed_master [OF assms]
    by (simp add: hex fromSeed_master [OF assms] seedHash_def seedNetwork_def)
qed

theorem fromSeed_master_key_witness:
  "\<exists>k. fromSeed testEnv (VBuf (replicate 16 1)) VUndefined = Inr k \<and>
       privateKey k = 20094569030471353608875188131201382265742070819979051491082689062875117 \<and>
       b_chainCode (buffers k) =
         [111, 213, 178, 167, 163, 167, 227, 96, 225, 145, 200, 89, 112, 142, 134, 99,
          35, 188, 194, 81, 39, 20, 88, 183, 143, 150, 232, 184, 50, 53, 125, 226] \<and>
       depth k = 0 \<and> b_parentFingerPrint (buffers k) = [0, 0, 0, 0] \<and>
       b_childIndex (buffers k) = [0, 0, 0, 0] \<and> network k = Some livenet \<and>
       fromSeed testEnv (VStr ''01010101010101010101010101010101'') VUndefined = Inr k"
proof -
  let ?b = "replicate 16 (1 :: byte)"
  have reg: "registryKnows testEnv (seedNetwork testEnv VUndefined)"
    by (simp add: seedNetwork_default testEnv_registry)
  have len: "16 \<le> length ?b" "length ?b \<le> 64" by simp_all
  have pk: "PrivateKey_new testEnv (BN_fromBuffer (take 32 (seedHash testEnv ?b)))"
    by (simp add: seedHash_def evals)
  have pub: "HDPublicKey_new testEnv (Some (seedNetwork testEnv VUndefined)) [0] [0, 0, 0, 0]
               [0, 0, 0, 0] (slice 32 64 (seedHash testEnv ?b))
               (PublicKey_toBuffer testEnv (BN_fromBuffer (take 32 (seedHash testEnv ?b))))
             = Some (test_encode ([0] @ [0, 0, 0, 0] @ [0, 0, 0, 0]
                       @ slice 32 64 (seedHash testEnv ?b)
                       @ PublicKey_toBuffer testEnv
                           (BN_fromBuffer (take 32 (seedHash testEnv ?b)))))"
    by (simp add: testEnv_fields(13) test_HDPublicKey_new_def)
  have hex: "isHexa (VStr ''01010101010101010101010101010101'')"
    "bufferUtil_hexToBuffer testEnv ''01010101010101010101010101010101'' = Some ?b"
    by (simp_all add: evals isHexDigit_def digitsValue_def digitValue_def)
  from fromSeed_master_key [OF testEnv_bufferUtilLaws testEnv_cryptoLaws reg len pk pub]
  obtain k where k: "fromSeed testEnv (VBuf ?b) VUndefined = Inr k"
    "privateKey k = BN_fromBuffer (take 32 (seedHash testEnv ?b))"
    "b_chainCode (buffers k) = slice 32 64 (seedHash testEnv ?b)"
    "depth k = 0" "b_parentFingerPrint (buffers k) = [0, 0, 0, 0]"
    "b_childIndex (buffers k) = [0, 0, 0, 0]"
    "network k = Some (case Network_get testEnv VUndefined of
                         Some n \<Rightarrow> n | None \<Rightarrow> Network_livenet testEnv)"
    "\<forall>s. isHexa (VStr s) \<and> bufferUtil_hexToBuffer testEnv s = Some ?b \<longrightarrow>
          fromSeed testEnv (VStr s) VUndefined = Inr k"
    by blast
  from k(8) hex have "fromSeed testEnv (VStr ''01010101010101010101010101010101'') VUndefined = Inr k"
    by blast
  moreover have "privateKey k = 20094569030471353608875188131201382265742070819979051491082689062875117"
    unfolding k(2) by (simp add: seedHash_16 BN_fromBuffer_def)
  moreover have "b_chainCode (buffers k) =
         [111, 213, 178, 167, 163, 167, 227, 96, 225, 145, 200, 89, 112, 142, 134, 99,
          35, 188, 194, 81, 39, 20, 88, 183, 143, 150, 232, 184, 50, 53, 125, 226]"
    unfolding k(3) by (simp add: seedHash_16 slice_def)
  moreover have "network k = Some livenet"
    unfolding k(7) by (simp add: testEnv_fields)
  ultimately show ?thesis using k(1,4,5,6) by blast
qed

section \<open>The bounds on the entropy\<close>

text \<open>
  Claim C9. On a byte buffer, \<open>fromSeed\<close> fails with \<open>NotEnoughEntropy\<close> below 16 bytes
  and with \<open>TooMuchEntropy\<close> above 64 bytes; from 16 to 64 bytes it passes both checks, and
  returns a key whenever the collaborators accept the master key; an input that is
  neither a buffer nor a hex string fails with \<open>InvalidEntropyArgument\<close>.
\<close>

theorem fromSeed_entropy_bounds:
  "(length b < 16 \<longrightarrow> fromSeed P (VBuf b) net = Inl NotEnoughEntropy) \<and>
   (64 < length b \<longrightarrow> fromSeed P (VBuf b) net = Inl TooMuchEntropy) \<and>
   (16 \<le> length b \<and> length b \<le> 64 \<longrightarrow>
      fromSeed P (VBuf b) net
        \<notin> {Inl NotEnoughEntropy, Inl TooMuchEntropy, Inl InvalidEntropyArgument}) \<and>
   (16 \<le> length b \<and> length b \<le> 64 \<and> bufferUtilLaws P \<and> cryptoLaws P \<and>
    registryKnows P (seedNetwork P net) \<and>
    PrivateKey_new P (BN_fromBuffer (take 32 (seedHash P b))) \<and>
    HDPublicKey_new P (Some (seedNetwork P net)) [0] [0, 0, 0, 0] [0, 0, 0, 0]
      (slice 32 64 (seedHash P b))
      (PublicKey_toBuffer P (BN_fromBuffer (take 32 (seedHash P b)))) = Some xpub \<longrightarrow>
      (\<exists>k. fromSeed P (VBuf b) net = Inr k)) \<and>
   (\<not> isBuffer v \<and> \<not> isHexa v \<longrightarrow> fromSeed P v net = Inl InvalidEntropyArgument)"
proof (intro conjI impI)
  show "fromSeed P (VBuf b) net = Inl NotEnoughEntropy" if "length b < 16"
    using that by (simp add: fromSeed_checks)
  show "fromSeed P (VBuf b) net = Inl TooMuchEntropy" if "64 < length b"
    using that by (simp add: fromSeed_checks)
  show "fromSeed P (VBuf b) net
          \<notin> {Inl NotEnoughEntropy, Inl TooMuchEntropy, Inl InvalidEntropyArgument}"
    if "16 \<le> length b \<and> length b \<le> 64"
    using that buildFromObject_error [of P _ NotEnoughEntropy]
      buildFromObject_error [of P _ TooMuchEntropy]
      buildFromObject_error [of P _ InvalidEntropyArgument]
    by (auto simp: fromSeed_checks)
  show "\<exists>k. fromSeed P (VBuf b) net = Inr k"
    if "16 \<le> length b \<and> length b \<le> 64 \<and> bufferUtilLaws P \<and> cryptoLaws P \<and>
        registryKnows P (seedNetwork P net) \<and>
        PrivateKey_new P (BN_fromBuffer (take 32 (seedHash P b))) \<and>
        HDPublicKey_new P (Some (seedNetwork P net)) [0] [0, 0, 0, 0] [0, 0, 0, 0]
          (slice 32 64 (seedHash P b))
          (PublicKey_toBuffer P (BN_fromBuffer (take 32 (seedHash P b)))) = Some xpub"
    using that fromSeed_master [of P net b xpub] by blast
  show "fromSeed P v net = Inl InvalidEntropyArgument" if "\<not> isBuffer v \<and> \<not> isHexa v"
    using that by (simp add: fromSeed_def)
qed

lemma test_HDPublicKey_new_Some:
  "HDPublicKey_new testEnv (Some n) d f c cc p = Some (test_encode (d @ f @ c @ cc @ p))"
  by (simp add: testEnv_fields(13) test_HDPublicKey_new_def)

theorem fromSeed_entropy_bounds_witness:
  "fromSeed testEnv (VBuf (replicate 15 1)) VUndefined = Inl NotEnoughEntropy \<and>
   (\<exists>k. fromSeed testEnv (VBuf (replicate 16 1)) VUndefined = Inr k) \<and>
   (\<exists>k. fromSeed testEnv (VBuf (replicate 64 1)) VUndefined = Inr k) \<and>
   fromSeed testEnv (VBuf (replicate 65 1)) VUndefined = Inl TooMuchEntropy \<and>
   fromSeed testEnv (VNum (JInt 5)) VUndefined = Inl InvalidEntropyArgument \<and>
   fromSeed testEnv (VStr ''seed'') VUndefined = Inl InvalidEntropyArgument"
proof -
  have reg: "registryKnows testEnv (seedNetwork testEnv VUndefined)"
    by (simp add: seedNetwork_default testEnv_registry)
  have pk16: "PrivateKey_new testEnv (BN_fromBuffer (take 32 (seedHash testEnv (replicate 16 1))))"
    by (simp add: seedHash_def evals)
  have pk64: "PrivateKey_new testEnv (BN_fromBuffer (take 32 (seedHash testEnv (replicate 64 1))))"
    by (simp add: seedHash_def evals)
  have hex: "\<not> isHexa (VStr ''seed'')"
    by (simp add: isHexDigit_def)
  show ?thesis
    using fromSeed_entropy_bounds [where b = "replicate 15 1" and P = testEnv
        and net = VUndefined and v = "VNum (JInt 5)"]
      fromSeed_entropy_bounds [where b = "replicate 16 1" and P = testEnv
        and net = VUndefined and v = "VStr ''seed''"
        and xpub = "test_encode ([0] @ [0, 0, 0, 0] @ [0, 0, 0, 0]
                       @ slice 32 64 (seedHash testEnv (replicate 16 1))
                       @ PublicKey_toBuffer testEnv
                           (BN_fromBuffer (take 32 (seedHash testEnv (replicate 16 1)))))"]
      fromSeed_entropy_bounds [where b = "replicate 64 1" and P = testEnv
        and net = VUndefined and v = VNull
        and xpub = "test_encode ([0] @ [0, 0, 0, 0] @ [0, 0, 0, 0]
                       @ slice 32 64 (seedHash testEnv (replicate 64 1))
                       @ PublicKey_toBuffer testEnv
                           (BN_fromBuffer (take 32 (seedHash testEnv (replicate 64 1)))))"]
      fromSeed_entropy_bounds [where b = "replicate 65 1" and P = testEnv
        and net = VUndefined and v = VNull]
      reg pk16 pk64 hex testEnv_bufferUtilLaws testEnv_cryptoLaws test_HDPublicKey_new_Some
    by simp
qed

section \<open>The order of the checks on a serialized key\<close>

lemma test_decode_short: "test_decode (VStr ''1213141o1j4K53'') = Some [1, 2, 3]"
  by (simp add: b58alphabet_def test_checksum_def evals)

lemma test_decode_damaged: "test_decode (VStr ''1213141o1j4K54'') = None"
  by (simp add: b58alphabet_def test_checksum_def evals)

lemma test_decode_master:
  "test_decode (VStr ''153M3z4w1111111111111111112v4g453t3p3t4v2f4t3W4T2Y2w3T3K2i1c4F4M2Q1g1M2X4A3U3b514B1s1v3A4u11111113522Y2W2v4p3u4w3U2p3q2y2C5E4T1n1e2C4Q1e493S4J2D3T1h2M4E4256315A1R1X'') =
      Some ([4, 136, 173, 228] @ [0] @ [0, 0, 0, 0] @ [0, 0, 0, 0]
        @ [111, 213, 178, 167, 163, 167, 227, 96, 225, 145, 200, 89, 112, 142, 134, 99,
           35, 188, 194, 81, 39, 20, 88, 183, 143, 150, 232, 184, 50, 53, 125, 226]
        @ [0]
        @ [0, 0, 2, 233, 89, 87, 111, 221, 168, 228, 143, 105, 164, 114, 69, 245,
           200, 45, 37, 69, 197, 37, 182, 141, 191, 70, 142, 40, 78, 187, 175, 237])"
  by (simp add: b58alphabet_def test_checksum_def evals)

lemma test_validCharacters_master: "test_validCharacters (VStr ''153M3z4w1111111111111111112v4g453t3p3t4v2f4t3W4T2Y2w3T3K2i1c4F4M2Q1g1M2X4A3U3b514B1s1v3A4u11111113522Y2W2v4p3u4w3U2p3q2y2C5E4T1n1e2C4Q1e493S4J2D3T1h2M4E4256315A1R1X'')"
  by (simp add: b58alphabet_def)

text \<open>
  Claim C7. \<open>getSerializedError\<close> answers \<open>InvalidArgument\<close> for an input that is neither
  text nor bytes; otherwise \<open>InvalidB58Char\<close> when the codec finds a character outside the
  Base58 alphabet; otherwise \<open>InvalidB58Checksum\<close> when Base58Check decoding fails;
  otherwise \<open>InvalidLength\<close> when the decoded payload has not 78 bytes; otherwise, when a
  network is given, \<open>InvalidNetworkArgument\<close> for a network the registry does not know and
  \<open>InvalidNetwork\<close> when the first four bytes are not its version; otherwise null. And
  \<open>isValidSerialized\<close> holds exactly when \<open>getSerializedError\<close> is null.
\<close>

theorem getSerializedError_order:
  "getSerializedError P data net =
     (if \<not> (isString data \<or> isBuffer data) then Some InvalidArgument
      else if \<not> Base58_validCharacters P data then Some InvalidB58Char
      else if Base58Check_decode P data = None then Some InvalidB58Checksum
      else if length (the (Base58Check_decode P data)) \<noteq> 78 then Some InvalidLength
      else if net = VUndefined then None
      else if Network_get P net = None then Some InvalidNetworkArgument
      else if bufferUtil_integerFromBuffer P (take 4 (the (Base58Check_decode P data)))
                \<noteq> net_xprivkey (the (Network_get P net))
      then Some InvalidNetwork
      else None) \<and>
   isValidSerialized P data net = (getSerializedError P data net = None)"
  by (cases net)
     (auto simp: getSerializedError_def isValidSerialized_def validateNetwork_def slice_def
                 DataLength_def Let_def
           split: option.splits)

theorem getSerializedError_order_witness:
  "getSerializedError testEnv (VNum (JInt 5)) VUndefined = Some InvalidArgument \<and>
   getSerializedError testEnv (VStr ''0OIl'') VUndefined = Some InvalidB58Char \<and>
   getSerializedError testEnv (VStr ''1213141o1j4K54'') VUndefined = Some InvalidB58Checksum \<and>
   getSerializedError testEnv (VStr ''1213141o1j4K53'') VUndefined = Some InvalidLength \<and>
   getSerializedError testEnv (VStr ''153M3z4w1111111111111111112v4g453t3p3t4v2f4t3W4T2Y2w3T3K2i1c4F4M2Q1g1M2X4A3U3b514B1s1v3A4u11111113522Y2W2v4p3u4w3U2p3q2y2C5E4T1n1e2C4Q1e493S4J2D3T1h2M4E4256315A1R1X'') (VStr ''regtest'') = Some InvalidNetworkArgument \<and>
   getSerializedError testEnv (VStr ''153M3z4w1111111111111111112v4g453t3p3t4v2f4t3W4T2Y2w3T3K2i1c4F4M2Q1g1M2X4A3U3b514B1s1v3A4u11111113522Y2W2v4p3u4w3U2p3q2y2C5E4T1n1e2C4Q1e493S4J2D3T1h2M4E4256315A1R1X'') (VStr ''testnet'') = Some InvalidNetwork \<and>
   getSerializedError testEnv (VStr ''153M3z4w1111111111111111112v4g453t3p3t4v2f4t3W4T2Y2w3T3K2i1c4F4M2Q1g1M2X4A3U3b514B1s1v3A4u11111113522Y2W2v4p3u4w3U2p3q2y2C5E4T1n1e2C4Q1e493S4J2D3T1h2M4E4256315A1R1X'') (VStr ''livenet'') = None \<and>
   isValidSerialized testEnv (VStr ''153M3z4w1111111111111111112v4g453t3p3t4v2f4t3W4T2Y2w3T3K2i1c4F4M2Q1g1M2X4A3U3b514B1s1v3A4u11111113522Y2W2v4p3u4w3U2p3q2y2C5E4T1n1e2C4Q1e493S4J2D3T1h2M4E4256315A1R1X'') VUndefined"
proof -
  note e = testEnv_fields test_decode_short test_decode_damaged test_decode_master
    test_validCharacters_master test_integerFromBuffer_def BN_fromBuffer_def livenet_def
    testnet_def
  have "getSerializedError testEnv (VNum (JInt 5)) VUndefined = Some InvalidArgument"
    by (simp add: getSerializedError_order)
  moreover have "getSerializedError testEnv (VStr ''0OIl'') VUndefined = Some InvalidB58Char"
    by (simp add: getSerializedError_order testEnv_fields b58alphabet_def)
  moreover have "getSerializedError testEnv (VStr ''1213141o1j4K54'') VUndefined
      = Some InvalidB58Checksum"
    by (simp add: getSerializedError_order e b58alphabet_def del: test_decode.simps)
  moreover have "getSerializedError testEnv (VStr ''1213141o1j4K53'') VUndefined
      = Some InvalidLength"
    by (simp add: getSerializedError_order e b58alphabet_def del: test_decode.simps)
  moreover have "getSerializedError testEnv (VStr ''153M3z4w1111111111111111112v4g453t3p3t4v2f4t3W4T2Y2w3T3K2i1c4F4M2Q1g1M2X4A3U3b514B1s1v3A4u11111113522Y2W2v4p3u4w3U2p3q2y2C5E4T1n1e2C4Q1e493S4J2D3T1h2M4E4256315A1R1X'') (VStr ''regtest'')
      = Some InvalidNetworkArgument"
    by (simp add: getSerializedError_order e
          del: test_decode.simps test_validCharacters.simps)
  moreover have "getSerializedError testEnv (VStr ''153M3z4w1111111111111111112v4g453t3p3t4v2f4t3W4T2Y2w3T3K2i1c4F4M2Q1g1M2X4A3U3b514B1s1v3A4u11111113522Y2W2v4p3u4w3U2p3q2y2C5E4T1n1e2C4Q1e493S4J2D3T1h2M4E4256315A1R1X'') (VStr ''testnet'') = Some InvalidNetwork"
    by (simp add: getSerializedError_order e
          del: test_decode.simps test_validCharacters.simps)
  moreover have "getSerializedError testEnv (VStr ''153M3z4w1111111111111111112v4g453t3p3t4v2f4t3W4T2Y2w3T3K2i1c4F4M2Q1g1M2X4A3U3b514B1s1v3A4u11111113522Y2W2v4p3u4w3U2p3q2y2C5E4T1n1e2C4Q1e493S4J2D3T1h2M4E4256315A1R1X'') (VStr ''livenet'') = None"
    by (simp add: getSerializedError_order e
          del: test_decode.simps test_validCharacters.simps)
  moreover have "isValidSerialized testEnv (VStr ''153M3z4w1111111111111111112v4g453t3p3t4v2f4t3W4T2Y2w3T3K2i1c4F4M2Q1g1M2X4A3U3b514B1s1v3A4u11111113522Y2W2v4p3u4w3U2p3q2y2C5E4T1n1e2C4Q1e493S4J2D3T1h2M4E4256315A1R1X'') VUndefined"
    by (simp add: getSerializedError_order e
          del: test_decode.simps test_validCharacters.simps)
  ultimately show ?thesis by blast
qed

section \<open>The constructor on text that is neither a key nor JSON\<close>

lemma getSerializedError_kinds:
  "getSerializedError P data net = Some e \<Longrightarrow>
     e \<in> {InvalidArgument, InvalidB58Char, InvalidB58Checksum, InvalidLength,
          InvalidNetworkArgument, InvalidNetwork}"
  by (auto simp: getSerializedError_def validateNetwork_def Let_def
           split: if_splits option.splits)

lemma getSerializedError_text_kinds:
  assumes "getSerializedError P data VUndefined = Some e" and "isString data \<or> isBuffer data"
  shows "e \<in> {InvalidB58Char, InvalidB58Checksum, InvalidLength}"
  using assms
  by (auto simp: getSerializedError_def split: if_splits option.splits)

lemma buildFromSerialized_error:
  "buildFromSerialized P arg = Inl e \<Longrightarrow>
     e \<in> {Base58CheckError, AssertionError, InvalidB58Checksum, PrivateKeyError,
          HDPublicKeyError}"
  by (auto simp: buildFromSerialized_def dest!: buildFromBuffers_error split: option.splits)

lemma buildFromJson_error:
  "buildFromJson P arg = Inl e \<Longrightarrow>
     e \<in> {SyntaxError, TypeError, HexError, AssertionError, InvalidB58Checksum,
          PrivateKeyError, HDPublicKeyError}"
  by (auto simp: buildFromJson_def dest!: buildFromObject_error split: option.splits)

text \<open>
  Claim C8, as stated: a string or buffer that neither passes the validator nor parses as
  JSON makes the constructor fail with \<open>UnrecognizedArgument\<close>. It does not: the
  constructor throws what \<open>getSerializedError\<close> returns for the argument. The text
  \<open>0OIl\<close> has no character of the Base58 alphabet and is no JSON; construction fails with
  \<open>InvalidB58Char\<close>.
\<close>

theorem unparseable_text_counterexample:
  "\<not> isValidSerialized testEnv (VStr ''0OIl'') VUndefined \<and>
   JSON_parse testEnv (VStr ''0OIl'') = None \<and>
   HDPrivateKey testEnv (VStr ''0OIl'') = Inl InvalidB58Char"
  by (simp add: HDPrivateKey_def construct_def isValidSerialized_def getSerializedError_def
        isValidJson_def testEnv_fields b58alphabet_def)

text \<open>
  Claim C8, amended. A non-empty string, or a buffer, that does not pass the validator
  and for which \<open>isValidJson\<close> is falsy makes the constructor fail with the error that
  \<open>getSerializedError\<close> reports for it, one of \<open>InvalidB58Char\<close>, \<open>InvalidB58Checksum\<close> and
  \<open>InvalidLength\<close>. The constructor fails with \<open>UnrecognizedArgument\<close> exactly on a
  truthy argument that is neither text, bytes nor an object.
\<close>

theorem unparseable_text_serialized_error:
  "((isString arg \<or> isBuffer arg) \<and> truthy arg \<and> \<not> isValidSerialized P arg VUndefined \<and>
    \<not> truthy (isValidJson P arg) \<longrightarrow>
      (\<exists>e. getSerializedError P arg VUndefined = Some e \<and> HDPrivateKey P arg = Inl e \<and>
           e \<in> {InvalidB58Char, InvalidB58Checksum, InvalidLength})) \<and>
   (HDPrivateKey P v = Inl UnrecognizedArgument) =
     (truthy v \<and> \<not> isString v \<and> \<not> isBuffer v \<and> \<not> isObject v)"
proof (rule conjI)
  show "(isString arg \<or> isBuffer arg) \<and> truthy arg \<and> \<not> isValidSerialized P arg VUndefined \<and>
   \<not> truthy (isValidJson P arg) \<longrightarrow>
     (\<exists>e. getSerializedError P arg VUndefined = Some e \<and> HDPrivateKey P arg = Inl e \<and>
          e \<in> {InvalidB58Char, InvalidB58Checksum, InvalidLength})"
  proof
    assume a: "(isString arg \<or> isBuffer arg) \<and> truthy arg \<and>
      \<not> isValidSerialized P arg VUndefined \<and> \<not> truthy (isValidJson P arg)"
    then obtain e where e: "getSerializedError P arg VUndefined = Some e"
      by (auto simp: isValidSerialized_def)
    from a have nk: "\<And>k. arg \<noteq> VKey k" by auto
    have "HDPrivateKey P arg = construct P arg"
      using a nk by (cases arg) (simp_all add: HDPrivateKey_def)
    with a e have "HDPrivateKey P arg = Inl e"
      by (simp add: construct_def)
    with e getSerializedError_text_kinds [OF e] a show
      "\<exists>e. getSerializedError P arg VUndefined = Some e \<and> HDPrivateKey P arg = Inl e \<and>
          e \<in> {InvalidB58Char, InvalidB58Checksum, InvalidLength}"
      by blast
  qed
next
  have none: "fromSeed P x y \<noteq> Inl UnrecognizedArgument" for x y
    using fromSeed_error [of P x y UnrecognizedArgument] by auto
  have ser: "buildFromSerialized P x \<noteq> Inl UnrecognizedArgument" for x
    using buildFromSerialized_error [of P x UnrecognizedArgument] by auto
  have js: "buildFromJson P x \<noteq> Inl UnrecognizedArgument" for x
    using buildFromJson_error [of P x UnrecognizedArgument] by auto
  have ob: "buildFromObject P x \<noteq> Inl UnrecognizedArgument" for x
    using buildFromObject_error [of P x UnrecognizedArgument] by auto
  have gs: "getSerializedError P x VUndefined \<noteq> Some UnrecognizedArgument" for x
    using getSerializedError_kinds [of P x VUndefined UnrecognizedArgument] by auto
  have c: "(construct P v = Inl UnrecognizedArgument) =
             (\<not> isString v \<and> \<not> isBuffer v \<and> \<not> isObject v)"
    using ser js ob gs by (auto simp: construct_def split: option.splits)
  show "(HDPrivateKey P v = Inl UnrecognizedArgument) =
         (truthy v \<and> \<not> isString v \<and> \<not> isBuffer v \<and> \<not> isObject v)"
    using c none by (cases v) (auto simp: HDPrivateKey_def generateRandomly_def)
qed

theorem unparseable_text_witness:
  "HDPrivateKey testEnv (VStr ''0OIl'') = Inl InvalidB58Char \<and>
   HDPrivateKey testEnv (VStr ''1213141o1j4K54'') = Inl InvalidB58Checksum \<and>
   HDPrivateKey testEnv (VStr ''1213141o1j4K53'') = Inl InvalidLength \<and>
   HDPrivateKey testEnv (VNum (JInt 1)) = Inl UnrecognizedArgument \<and>
   HDPrivateKey testEnv (VBool True) = Inl UnrecognizedArgument"
proof -
  note g = getSerializedError_def DataLength_def
  have e1: "getSerializedError testEnv (VStr ''0OIl'') VUndefined = Some InvalidB58Char"
    by (simp add: g testEnv_fields b58alphabet_def)
  have e2: "getSerializedError testEnv (VStr ''1213141o1j4K54'') VUndefined
      = Some InvalidB58Checksum"
    by (simp add: g testEnv_fields test_decode_damaged b58alphabet_def del: test_decode.simps)
  have e3: "getSerializedError testEnv (VStr ''1213141o1j4K53'') VUndefined = Some InvalidLength"
    by (simp add: g testEnv_fields test_decode_short b58alphabet_def del: test_decode.simps)
  have j: "\<not> truthy (isValidJson testEnv x)" for x
    by (simp add: isValidJson_def testEnv_fields)
  have "HDPrivateKey testEnv (VStr ''0OIl'') = Inl InvalidB58Char"
    using unparseable_text_serialized_error [of "VStr ''0OIl''" testEnv VNull] e1 j
    by (simp add: isValidSerialized_def)
  moreover have "HDPrivateKey testEnv (VStr ''1213141o1j4K54'') = Inl InvalidB58Checksum"
    using unparseable_text_serialized_error [of "VStr ''1213141o1j4K54''" testEnv VNull] e2 j
    by (simp add: isValidSerialized_def)
  moreover have "HDPrivateKey testEnv (VStr ''1213141o1j4K53'') = Inl InvalidLength"
    using unparseable_text_serialized_error [of "VStr ''1213141o1j4K53''" testEnv VNull] e3 j
    by (simp add: isValidSerialized_def)
  moreover have "HDPrivateKey testEnv (VNum (JInt 1)) = Inl UnrecognizedArgument"
    using unparseable_text_serialized_error [of VNull testEnv "VNum (JInt 1)"] by simp
  moreover have "HDPrivateKey testEnv (VBool True) = Inl UnrecognizedArgument"
    using unparseable_text_serialized_error [of VNull testEnv "VBool True"] by simp
  ultimately show ?thesis by blast
qed

section \<open>What a built key holds\<close>

lemma inSequence_Inr: "inSequence cs = Inr u \<Longrightarrow> c \<in> set cs \<Longrightarrow> c = Inr ()"
  by (induction cs) (auto split: sum.splits)

lemma checkBuffer_Inr: "checkBuffer v n = Inr u \<Longrightarrow> \<exists>b. v = VBuf b \<and> length b = n"
  by (cases v) (auto simp: checkBuffer_def split: if_splits)

lemma validateBufferArguments_Inr:
  assumes "validateBufferArguments f = Inr u"
  shows "\<exists>v d p c cc pk.
           a_version f = VBuf v \<and> length v = 4 \<and> a_depth f = VBuf d \<and> length d = 1 \<and>
           a_parentFingerPrint f = VBuf p \<and> length p = 4 \<and>
           a_childIndex f = VBuf c \<and> length c = 4 \<and>
           a_chainCode f = VBuf cc \<and> length cc = 32 \<and>
           a_privateKey f = VBuf pk \<and> length pk = 32"
proof -
  note s = inSequence_Inr [OF assms [unfolded validateBufferArguments_def]]
  have "checkBuffer (a_version f) VersionSize = Inr ()"
    "checkBuffer (a_depth f) DepthSize = Inr ()"
    "checkBuffer (a_parentFingerPrint f) ParentFingerPrintSize = Inr ()"
    "checkBuffer (a_childIndex f) ChildIndexSize = Inr ()"
    "checkBuffer (a_chainCode f) ChainCodeSize = Inr ()"
    "checkBuffer (a_privateKey f) PrivateKeySize = Inr ()"
    by (rule s, simp)+
  then show ?thesis
    by (auto dest!: checkBuffer_Inr simp: layout)
qed

lemma buildFromBuffers_on_buffers:
  assumes "length v = 4" "length d = 1" "length p = 4" "length c = 4" "length cc = 32"
    "length pk = 32"
  shows "buildFromBuffers P
           \<lparr>a_version = VBuf v, a_depth = VBuf d, a_parentFingerPrint = VBuf p,
            a_childIndex = VBuf c, a_chainCode = VBuf cc, a_privateKey = VBuf pk,
            a_checksum = cs, a_xprivkey = x\<rparr> =
         (if truthy cs \<and> truthy (getProp cs ''length'') \<and> checkBuffer cs 4 \<noteq> Inr ()
          then Inl AssertionError
          else if truthy cs \<and> truthy (getProp cs ''length'') \<and>
                  Buffer_toString P (bytes_of cs)
                    \<noteq> Buffer_toString P (Base58Check_checksum P (v @ d @ p @ c @ cc @ [0] @ pk))
          then Inl InvalidB58Checksum
          else if \<not> PrivateKey_new P (BN_fromBuffer pk) then Inl PrivateKeyError
          else case HDPublicKey_new P
                      (Network_get P (VNum (JInt (bufferUtil_integerFromBuffer P v)))) d p c cc
                      (PublicKey_toBuffer P (BN_fromBuffer pk)) of
                 None \<Rightarrow> Inl HDPublicKeyError
               | Some xpub \<Rightarrow>
                   Inr \<lparr>buffers =
                          \<lparr>b_version = v, b_depth = d, b_parentFingerPrint = p,
                           b_childIndex = c, b_chainCode = cc, b_privateKey = pk,
                           b_checksum =
                             (if truthy cs \<and> truthy (getProp cs ''length'') then bytes_of cs
                              else Base58Check_checksum P (v @ d @ p @ c @ cc @ [0] @ pk)),
                           b_xprivkey = x\<rparr>,
                        xprivkey =
                          (case x of
                             None \<Rightarrow> Text (Base58Check_encode P (v @ d @ p @ c @ cc @ [0] @ pk))
                           | Some (Text s) \<Rightarrow>
                               if s = []
                               then Text (Base58Check_encode P (v @ d @ p @ c @ cc @ [0] @ pk))
                               else Text s
                           | Some (Bytes b) \<Rightarrow> Bytes b),
                        network =
                          Network_get P (VNum (JInt (bufferUtil_integerFromBuffer P v))),
                        depth = bufferUtil_integerFromSingleByteBuffer P d,
                        privateKey = BN_fromBuffer pk,
                        publicKey = PublicKey_toBuffer P (BN_fromBuffer pk),
                        fingerPrint =
                          take 4 (Hash_sha256ripemd160 P (PublicKey_toBuffer P (BN_fromBuffer pk))),
                        xpubkey = xpub\<rparr>)"
proof -
  have v: "validateBufferArguments
             \<lparr>a_version = VBuf v, a_depth = VBuf d, a_parentFingerPrint = VBuf p,
              a_childIndex = VBuf c, a_chainCode = VBuf cc, a_privateKey = VBuf pk,
              a_checksum = cs, a_xprivkey = x\<rparr> =
           (if truthy cs \<and> truthy (getProp cs ''length'') then checkBuffer cs 4 else Inr ())"
    using assms
    by (simp add: validateBufferArguments_def checkBuffer_def checksumGiven_def layout)
  show ?thesis
    by (auto simp: buildFromBuffers_def v checksumGiven_def Let_def emptyBuffer_def slice_def
          layout
        dest: checkBuffer_error split: option.split sum.split serial.split)
qed

lemma buildFromBuffers_Inr:
  assumes "buildFromBuffers P f = Inr k"
  shows "a_version f = VBuf (b_version (buffers k))"
    and "a_depth f = VBuf (b_depth (buffers k))"
    and "a_parentFingerPrint f = VBuf (b_parentFingerPrint (buffers k))"
    and "a_childIndex f = VBuf (b_childIndex (buffers k))"
    and "a_chainCode f = VBuf (b_chainCode (buffers k))"
    and "a_privateKey f = VBuf (b_privateKey (buffers k))"
    and "length (b_version (buffers k)) = 4"
    and "length (b_depth (buffers k)) = 1"
    and "length (b_parentFingerPrint (buffers k)) = 4"
    and "length (b_childIndex (buffers k)) = 4"
    and "length (b_chainCode (buffers k)) = 32"
    and "length (b_privateKey (buffers k)) = 32"
    and "b_xprivkey (buffers k) = a_xprivkey f"
    and "b_checksum (buffers k) =
       (if checksumGiven f then bytes_of (a_checksum f)
        else Base58Check_checksum P (payload (buffers k)))"
    and "xprivkey k =
       (case a_xprivkey f of
          None \<Rightarrow> Text (Base58Check_encode P (payload (buffers k)))
        | Some (Text s) \<Rightarrow>
            if s = [] then Text (Base58Check_encode P (payload (buffers k))) else Text s
        | Some (Bytes b) \<Rightarrow> Bytes b)"
    and "network k =
       Network_get P (VNum (JInt (bufferUtil_integerFromBuffer P (b_version (buffers k)))))"
    and "depth k = bufferUtil_integerFromSingleByteBuffer P (b_depth (buffers k))"
    and "privateKey k = BN_fromBuffer (b_privateKey (buffers k))"
    and "PrivateKey_new P (privateKey k)"
    and "publicKey k = PublicKey_toBuffer P (privateKey k)"
    and "fingerPrint k = take 4 (Hash_sha256ripemd160 P (publicKey k))"
    and "HDPublicKey_new P (network k) (b_depth (buffers k)) (b_parentFingerPrint (buffers k))
       (b_childIndex (buffers k)) (b_chainCode (buffers k)) (publicKey k) = Some (xpubkey k)"
proof -
  from assms obtain u where "validateBufferArguments f = Inr u"
    by (auto simp: buildFromBuffers_def split: sum.splits)
  from validateBufferArguments_Inr [OF this] obtain v d p c cc pk where
    f: "a_version f = VBuf v" "a_depth f = VBuf d" 
      "a_parentFingerPrint f = VBuf p" "a_childIndex f = VBuf c" 
      "a_chainCode f = VBuf cc" "a_privateKey f = VBuf pk" 
    and l: "length v = 4"  "length d = 1" "length p = 4" "length c = 4" "length cc = 32"
      "length pk = 32"
    by blast
  obtain cs x where "a_checksum f = cs" "a_xprivkey f = x" by simp
  with f have ff: "f = \<lparr>a_version = VBuf v, a_depth = VBuf d, a_parentFingerPrint = VBuf p,
            a_childIndex = VBuf c, a_chainCode = VBuf cc, a_privateKey = VBuf pk,
            a_checksum = cs, a_xprivkey = x\<rparr>"
    by (cases f) simp
  define R where "R = (\<lambda>xpub.
     \<lparr>buffers =
        \<lparr>b_version = v, b_depth = d, b_parentFingerPrint = p,
         b_childIndex = c, b_chainCode = cc, b_privateKey = pk,
         b_checksum =
           (if truthy cs \<and> truthy (getProp cs ''length'') then bytes_of cs
            else Base58Check_checksum P (v @ d @ p @ c @ cc @ [0] @ pk)),
         b_xprivkey = x\<rparr>,
      xprivkey =
        (case x of
           None \<Rightarrow> Text (Base58Check_encode P (v @ d @ p @ c @ cc @ [0] @ pk))
         | Some (Text s) \<Rightarrow>
             if s = []
             then Text (Base58Check_encode P (v @ d @ p @ c @ cc @ [0] @ pk))
             else Text s
         | Some (Bytes b) \<Rightarrow> Bytes b),
      network =
        Network_get P (VNum (JInt (bufferUtil_integerFromBuffer P v))),
      depth = bufferUtil_integerFromSingleByteBuffer P d,
      privateKey = BN_fromBuffer pk,
      publicKey = PublicKey_toBuffer P (BN_fromBuffer pk),
      fingerPrint =
        take 4 (Hash_sha256ripemd160 P (PublicKey_toBuffer P (BN_fromBuffer pk))),
      xpubkey = xpub\<rparr>)"
  have eq: "buildFromBuffers P f =
         (if truthy cs \<and> truthy (getProp cs ''length'') \<and> checkBuffer cs 4 \<noteq> Inr ()
          then Inl AssertionError
          else if truthy cs \<and> truthy (getProp cs ''length'') \<and>
                  Buffer_toString P (bytes_of cs)
                    \<noteq> Buffer_toString P (Base58Check_checksum P (v @ d @ p @ c @ cc @ [0] @ pk))
          then Inl InvalidB58Checksum
          else if \<not> PrivateKey_new P (BN_fromBuffer pk) then Inl PrivateKeyError
          else case HDPublicKey_new P
                      (Network_get P (VNum (JInt (bufferUtil_integerFromBuffer P v)))) d p c cc
                      (PublicKey_toBuffer P (BN_fromBuffer pk)) of
                 None \<Rightarrow> Inl HDPublicKeyError
               | Some xpub \<Rightarrow> Inr (R xpub))"
    unfolding ff R_def by (rule buildFromBuffers_on_buffers [OF l])
  from assms eq obtain xpub where
    h: "HDPublicKey_new P
          (Network_get P (VNum (JInt (bufferUtil_integerFromBuffer P v)))) d p c cc
          (PublicKey_toBuffer P (BN_fromBuffer pk)) = Some xpub"
    and k: "k = R xpub" and pkok: "PrivateKey_new P (BN_fromBuffer pk)"
    by (auto split: if_splits option.splits)
  have g: "checksumGiven f = (truthy cs \<and> truthy (getProp cs ''length''))"
    by (simp add: ff checksumGiven_def)
  have pl: "payload (buffers (R xpub)) = v @ d @ p @ c @ cc @ [0] @ pk"
    by (simp add: R_def payload_def)
  show "a_version f = VBuf (b_version (buffers k))"
    and "a_depth f = VBuf (b_depth (buffers k))"
    and "a_parentFingerPrint f = VBuf (b_parentFingerPrint (buffers k))"
    and "a_childIndex f = VBuf (b_childIndex (buffers k))"
    and "a_chainCode f = VBuf (b_chainCode (buffers k))"
    and "a_privateKey f = VBuf (b_privateKey (buffers k))"
    and "length (b_version (buffers k)) = 4"
    and "length (b_depth (buffers k)) = 1"
    and "length (b_parentFingerPrint (buffers k)) = 4"
    and "length (b_childIndex (buffers k)) = 4"
    and "length (b_chainCode (buffers k)) = 32"
    and "length (b_privateKey (buffers k)) = 32"
    and "b_xprivkey (buffers k) = a_xprivkey f"
    and "b_checksum (buffers k) =
       (if checksumGiven f then bytes_of (a_checksum f)
        else Base58Check_checksum P (payload (buffers k)))"
    and "xprivkey k =
       (case a_xprivkey f of
          None \<Rightarrow> Text (Base58Check_encode P (payload (buffers k)))
        | Some (Text s) \<Rightarrow>
            if s = [] then Text (Base58Check_encode P (payload (buffers k))) else Text s
        | Some (Bytes b) \<Rightarrow> Bytes b)"
    and "network k =
       Network_get P (VNum (JInt (bufferUtil_integerFromBuffer P (b_version (buffers k)))))"
    and "depth k = bufferUtil_integerFromSingleByteBuffer P (b_depth (buffers k))"
    and "privateKey k = BN_fromBuffer (b_privateKey (buffers k))"
    and "PrivateKey_new P (privateKey k)"
    and "publicKey k = PublicKey_toBuffer P (privateKey k)"
    and "fingerPrint k = take 4 (Hash_sha256ripemd160 P (publicKey k))"
    and "HDPublicKey_new P (network k) (b_depth (buffers k)) (b_parentFingerPrint (buffers k))
       (b_childIndex (buffers k)) (b_chainCode (buffers k)) (publicKey k) = Some (xpubkey k)"
    unfolding k pl g
    by (simp_all add: R_def ff l h pkok)
qed

end
